theory Spec2Isabelle
  imports Main
begin

section \<open>JavaScript strings and values\<close>

text \<open>
  A JavaScript string is a sequence of 16-bit code units, here natural numbers. A string
  literal of the source is written \<open>str ''...''\<close>. \<open>String.prototype.trim\<close>,
  \<open>toLowerCase\<close>, \<open>includes\<close>, \<open>replace\<close> and \<open>Array.prototype.join\<close> are modelled
  below as ECMAScript defines them.
\<close>

type_synonym js_string = "nat list"

definition str :: "string \<Rightarrow> js_string" where
  "str s = map of_char s"

definition isWhiteSpace :: "nat \<Rightarrow> bool" where
  \<comment> \<open>ECMAScript WhiteSpace and LineTerminator: TAB, LF, VT, FF, CR, the space separators
      of Unicode, LS, PS and U+FEFF.\<close>
  "isWhiteSpace c =
     (c = 9 \<or> c = 10 \<or> c = 11 \<or> c = 12 \<or> c = 13 \<or> c = 32 \<or> c = 160 \<or> c = 5760 \<or>
      (8192 \<le> c \<and> c \<le> 8202) \<or> c = 8232 \<or> c = 8233 \<or> c = 8239 \<or> c = 8287 \<or>
      c = 12288 \<or> c = 65279)"

definition trim :: "js_string \<Rightarrow> js_string" where
  "trim s = rev (dropWhile isWhiteSpace (rev (dropWhile isWhiteSpace s)))"

subsection \<open>Lower-casing\<close>

text \<open>
  \<open>toLowerCase\<close> reads the string as code points (a high surrogate and the low surrogate
  after it make one), maps every code point by the lower-case mapping of Unicode and
  writes the result as code units again. Two mappings are not from one code point to
  one: capital sigma (U+03A3) becomes the final sigma (U+03C2) where a cased letter
  stands before it and none after it, case-ignorable code points skipped, and the small
  sigma (U+03C3) elsewhere; the capital I with dot above (U+0130) becomes two code
  points. The three tables are those of Unicode 14.
\<close>

definition lowerCaseTable :: "(nat \<times> nat \<times> nat \<times> nat) list" where
  \<comment> \<open>\<open>(lo, hi, step, img)\<close>: the code points \<open>lo\<close>, \<open>lo + step\<close>, ... up to \<open>hi\<close>
      are mapped to \<open>img\<close>, \<open>img + step\<close>, ... Code points
      from 256 on.\<close>
  "lowerCaseTable =
     [
      (256, 302, 2, 257), (306, 310, 2, 307), (313, 327, 2, 314), (330, 374, 2, 331),
      (376, 376, 1, 255), (377, 381, 2, 378), (385, 385, 1, 595), (386, 388, 2, 387),
      (390, 390, 1, 596), (391, 391, 1, 392), (393, 394, 1, 598), (395, 395, 1, 396),
      (398, 398, 1, 477), (399, 399, 1, 601), (400, 400, 1, 603), (401, 401, 1, 402),
      (403, 403, 1, 608), (404, 404, 1, 611), (406, 406, 1, 617), (407, 407, 1, 616),
      (408, 408, 1, 409), (412, 412, 1, 623), (413, 413, 1, 626), (415, 415, 1, 629),
      (416, 420, 2, 417), (422, 422, 1, 640), (423, 423, 1, 424), (425, 425, 1, 643),
      (428, 428, 1, 429), (430, 430, 1, 648), (431, 431, 1, 432), (433, 434, 1, 650),
      (435, 437, 2, 436), (439, 439, 1, 658), (440, 440, 1, 441), (444, 444, 1, 445),
      (452, 452, 1, 454), (453, 453, 1, 454), (455, 455, 1, 457), (456, 456, 1, 457),
      (458, 458, 1, 460), (459, 475, 2, 460), (478, 494, 2, 479), (497, 497, 1, 499),
      (498, 500, 2, 499), (502, 502, 1, 405), (503, 503, 1, 447), (504, 542, 2, 505),
      (544, 544, 1, 414), (546, 562, 2, 547), (570, 570, 1, 11365), (571, 571, 1, 572),
      (573, 573, 1, 410), (574, 574, 1, 11366), (577, 577, 1, 578), (579, 579, 1, 384),
      (580, 580, 1, 649), (581, 581, 1, 652), (582, 590, 2, 583), (880, 882, 2, 881),
      (886, 886, 1, 887), (895, 895, 1, 1011), (902, 902, 1, 940), (904, 906, 1, 941),
      (908, 908, 1, 972), (910, 911, 1, 973), (913, 929, 1, 945), (931, 939, 1, 963),
      (975, 975, 1, 983), (984, 1006, 2, 985), (1012, 1012, 1, 952), (1015, 1015, 1, 1016),
      (1017, 1017, 1, 1010), (1018, 1018, 1, 1019), (1021, 1023, 1, 891), (1024, 1039, 1, 1104),
      (1040, 1071, 1, 1072), (1120, 1152, 2, 1121), (1162, 1214, 2, 1163), (1216, 1216, 1, 1231),
      (1217, 1229, 2, 1218), (1232, 1326, 2, 1233), (1329, 1366, 1, 1377), (4256, 4293, 1, 11520),
      (4295, 4295, 1, 11559), (4301, 4301, 1, 11565), (5024, 5103, 1, 43888), (5104, 5109, 1, 5112),
      (7312, 7354, 1, 4304), (7357, 7359, 1, 4349), (7680, 7828, 2, 7681), (7838, 7838, 1, 223),
      (7840, 7934, 2, 7841), (7944, 7951, 1, 7936), (7960, 7965, 1, 7952), (7976, 7983, 1, 7968),
      (7992, 7999, 1, 7984), (8008, 8013, 1, 8000), (8025, 8031, 2, 8017), (8040, 8047, 1, 8032),
      (8072, 8079, 1, 8064), (8088, 8095, 1, 8080), (8104, 8111, 1, 8096), (8120, 8121, 1, 8112),
      (8122, 8123, 1, 8048), (8124, 8124, 1, 8115), (8136, 8139, 1, 8050), (8140, 8140, 1, 8131),
      (8152, 8153, 1, 8144), (8154, 8155, 1, 8054), (8168, 8169, 1, 8160), (8170, 8171, 1, 8058),
      (8172, 8172, 1, 8165), (8184, 8185, 1, 8056), (8186, 8187, 1, 8060), (8188, 8188, 1, 8179),
      (8486, 8486, 1, 969), (8490, 8490, 1, 107), (8491, 8491, 1, 229), (8498, 8498, 1, 8526),
      (8544, 8559, 1, 8560), (8579, 8579, 1, 8580), (9398, 9423, 1, 9424), (11264, 11311, 1, 11312),
      (11360, 11360, 1, 11361), (11362, 11362, 1, 619), (11363, 11363, 1, 7549), (11364, 11364, 1, 637),
      (11367, 11371, 2, 11368), (11373, 11373, 1, 593), (11374, 11374, 1, 625), (11375, 11375, 1, 592),
      (11376, 11376, 1, 594), (11378, 11378, 1, 11379), (11381, 11381, 1, 11382), (11390, 11391, 1, 575),
      (11392, 11490, 2, 11393), (11499, 11501, 2, 11500), (11506, 11506, 1, 11507), (42560, 42604, 2, 42561),
      (42624, 42650, 2, 42625), (42786, 42798, 2, 42787), (42802, 42862, 2, 42803), (42873, 42875, 2, 42874),
      (42877, 42877, 1, 7545), (42878, 42886, 2, 42879), (42891, 42891, 1, 42892), (42893, 42893, 1, 613),
      (42896, 42898, 2, 42897), (42902, 42920, 2, 42903), (42922, 42922, 1, 614), (42923, 42923, 1, 604),
      (42924, 42924, 1, 609), (42925, 42925, 1, 620), (42926, 42926, 1, 618), (42928, 42928, 1, 670),
      (42929, 42929, 1, 647), (42930, 42930, 1, 669), (42931, 42931, 1, 43859), (42932, 42946, 2, 42933),
      (42948, 42948, 1, 42900), (42949, 42949, 1, 642), (42950, 42950, 1, 7566), (42951, 42953, 2, 42952),
      (42960, 42960, 1, 42961), (42966, 42968, 2, 42967), (42997, 42997, 1, 42998), (65313, 65338, 1, 65345),
      (66560, 66599, 1, 66600), (66736, 66771, 1, 66776), (66928, 66938, 1, 66967), (66940, 66954, 1, 66979),
      (66956, 66962, 1, 66995), (66964, 66965, 1, 67003), (68736, 68786, 1, 68800), (71840, 71871, 1, 71872),
      (93760, 93791, 1, 93792), (125184, 125217, 1, 125218)]"

definition casedTable :: "(nat \<times> nat) list" where
  \<comment> \<open>The ranges of the code points with the property Cased.\<close>
  "casedTable =
     [
      (65, 90), (97, 122), (170, 170), (181, 181), (186, 186), (192, 214),
      (216, 246), (248, 442), (444, 447), (452, 659), (661, 696), (704, 705),
      (736, 740), (837, 837), (880, 883), (886, 887), (890, 893), (895, 895),
      (902, 902), (904, 906), (908, 908), (910, 929), (931, 1013), (1015, 1153),
      (1162, 1327), (1329, 1366), (1376, 1416), (4256, 4293), (4295, 4295), (4301, 4301),
      (4304, 4346), (4349, 4351), (5024, 5109), (5112, 5117), (7296, 7304), (7312, 7354),
      (7357, 7359), (7424, 7615), (7680, 7957), (7960, 7965), (7968, 8005), (8008, 8013),
      (8016, 8023), (8025, 8025), (8027, 8027), (8029, 8029), (8031, 8061), (8064, 8116),
      (8118, 8124), (8126, 8126), (8130, 8132), (8134, 8140), (8144, 8147), (8150, 8155),
      (8160, 8172), (8178, 8180), (8182, 8188), (8305, 8305), (8319, 8319), (8336, 8348),
      (8450, 8450), (8455, 8455), (8458, 8467), (8469, 8469), (8473, 8477), (8484, 8484),
      (8486, 8486), (8488, 8488), (8490, 8493), (8495, 8500), (8505, 8505), (8508, 8511),
      (8517, 8521), (8526, 8526), (8544, 8575), (8579, 8580), (9398, 9449), (11264, 11492),
      (11499, 11502), (11506, 11507), (11520, 11557), (11559, 11559), (11565, 11565), (42560, 42605),
      (42624, 42653), (42786, 42887), (42891, 42894), (42896, 42954), (42960, 42961), (42963, 42963),
      (42965, 42969), (42997, 42998), (43000, 43002), (43824, 43866), (43868, 43880), (43888, 43967),
      (64256, 64262), (64275, 64279), (65313, 65338), (65345, 65370), (66560, 66639), (66736, 66771),
      (66776, 66811), (66928, 66938), (66940, 66954), (66956, 66962), (66964, 66965), (66967, 66977),
      (66979, 66993), (66995, 67001), (67003, 67004), (67456, 67456), (67459, 67461), (67463, 67504),
      (67506, 67514), (68736, 68786), (68800, 68850), (71840, 71903), (93760, 93823), (119808, 119892),
      (119894, 119964), (119966, 119967), (119970, 119970), (119973, 119974), (119977, 119980), (119982, 119993),
      (119995, 119995), (119997, 120003), (120005, 120069), (120071, 120074), (120077, 120084), (120086, 120092),
      (120094, 120121), (120123, 120126), (120128, 120132), (120134, 120134), (120138, 120144), (120146, 120485),
      (120488, 120512), (120514, 120538), (120540, 120570), (120572, 120596), (120598, 120628), (120630, 120654),
      (120656, 120686), (120688, 120712), (120714, 120744), (120746, 120770), (120772, 120779), (122624, 122633),
      (122635, 122654), (125184, 125251), (127280, 127305), (127312, 127337), (127344, 127369)]"

definition caseIgnorableTable :: "(nat \<times> nat) list" where
  \<comment> \<open>The ranges of the code points with the property Case_Ignorable.\<close>
  "caseIgnorableTable =
     [
      (39, 39), (46, 46), (58, 58), (94, 94), (96, 96), (168, 168),
      (173, 173), (175, 175), (180, 180), (183, 184), (688, 879), (884, 885),
      (890, 890), (900, 901), (903, 903), (1155, 1161), (1369, 1369), (1375, 1375),
      (1425, 1469), (1471, 1471), (1473, 1474), (1476, 1477), (1479, 1479), (1524, 1524),
      (1536, 1541), (1552, 1562), (1564, 1564), (1600, 1600), (1611, 1631), (1648, 1648),
      (1750, 1757), (1759, 1768), (1770, 1773), (1807, 1807), (1809, 1809), (1840, 1866),
      (1958, 1968), (2027, 2037), (2042, 2042), (2045, 2045), (2070, 2093), (2137, 2139),
      (2184, 2184), (2192, 2193), (2200, 2207), (2249, 2306), (2362, 2362), (2364, 2364),
      (2369, 2376), (2381, 2381), (2385, 2391), (2402, 2403), (2417, 2417), (2433, 2433),
      (2492, 2492), (2497, 2500), (2509, 2509), (2530, 2531), (2558, 2558), (2561, 2562),
      (2620, 2620), (2625, 2626), (2631, 2632), (2635, 2637), (2641, 2641), (2672, 2673),
      (2677, 2677), (2689, 2690), (2748, 2748), (2753, 2757), (2759, 2760), (2765, 2765),
      (2786, 2787), (2810, 2815), (2817, 2817), (2876, 2876), (2879, 2879), (2881, 2884),
      (2893, 2893), (2901, 2902), (2914, 2915), (2946, 2946), (3008, 3008), (3021, 3021),
      (3072, 3072), (3076, 3076), (3132, 3132), (3134, 3136), (3142, 3144), (3146, 3149),
      (3157, 3158), (3170, 3171), (3201, 3201), (3260, 3260), (3263, 3263), (3270, 3270),
      (3276, 3277), (3298, 3299), (3328, 3329), (3387, 3388), (3393, 3396), (3405, 3405),
      (3426, 3427), (3457, 3457), (3530, 3530), (3538, 3540), (3542, 3542), (3633, 3633),
      (3636, 3642), (3654, 3662), (3761, 3761), (3764, 3772), (3782, 3782), (3784, 3789),
      (3864, 3865), (3893, 3893), (3895, 3895), (3897, 3897), (3953, 3966), (3968, 3972),
      (3974, 3975), (3981, 3991), (3993, 4028), (4038, 4038), (4141, 4144), (4146, 4151),
      (4153, 4154), (4157, 4158), (4184, 4185), (4190, 4192), (4209, 4212), (4226, 4226),
      (4229, 4230), (4237, 4237), (4253, 4253), (4348, 4348), (4957, 4959), (5906, 5908),
      (5938, 5939), (5970, 5971), (6002, 6003), (6068, 6069), (6071, 6077), (6086, 6086),
      (6089, 6099), (6103, 6103), (6109, 6109), (6155, 6159), (6211, 6211), (6277, 6278),
      (6313, 6313), (6432, 6434), (6439, 6440), (6450, 6450), (6457, 6459), (6679, 6680),
      (6683, 6683), (6742, 6742), (6744, 6750), (6752, 6752), (6754, 6754), (6757, 6764),
      (6771, 6780), (6783, 6783), (6823, 6823), (6832, 6862), (6912, 6915), (6964, 6964),
      (6966, 6970), (6972, 6972), (6978, 6978), (7019, 7027), (7040, 7041), (7074, 7077),
      (7080, 7081), (7083, 7085), (7142, 7142), (7144, 7145), (7149, 7149), (7151, 7153),
      (7212, 7219), (7222, 7223), (7288, 7293), (7376, 7378), (7380, 7392), (7394, 7400),
      (7405, 7405), (7412, 7412), (7416, 7417), (7468, 7530), (7544, 7544), (7579, 7679),
      (8125, 8125), (8127, 8129), (8141, 8143), (8157, 8159), (8173, 8175), (8189, 8190),
      (8203, 8207), (8216, 8217), (8228, 8228), (8231, 8231), (8234, 8238), (8288, 8292),
      (8294, 8303), (8305, 8305), (8319, 8319), (8336, 8348), (8400, 8432), (11388, 11389),
      (11503, 11505), (11631, 11631), (11647, 11647), (11744, 11775), (11823, 11823), (12293, 12293),
      (12330, 12333), (12337, 12341), (12347, 12347), (12441, 12446), (12540, 12542), (40981, 40981),
      (42232, 42237), (42508, 42508), (42607, 42610), (42612, 42621), (42623, 42623), (42652, 42655),
      (42736, 42737), (42752, 42785), (42864, 42864), (42888, 42890), (42994, 42996), (43000, 43001),
      (43010, 43010), (43014, 43014), (43019, 43019), (43045, 43046), (43052, 43052), (43204, 43205),
      (43232, 43249), (43263, 43263), (43302, 43309), (43335, 43345), (43392, 43394), (43443, 43443),
      (43446, 43449), (43452, 43453), (43471, 43471), (43493, 43494), (43561, 43566), (43569, 43570),
      (43573, 43574), (43587, 43587), (43596, 43596), (43632, 43632), (43644, 43644), (43696, 43696),
      (43698, 43700), (43703, 43704), (43710, 43711), (43713, 43713), (43741, 43741), (43756, 43757),
      (43763, 43764), (43766, 43766), (43867, 43871), (43881, 43883), (44005, 44005), (44008, 44008),
      (44013, 44013), (64286, 64286), (64434, 64450), (65024, 65039), (65043, 65043), (65056, 65071),
      (65106, 65106), (65109, 65109), (65279, 65279), (65287, 65287), (65294, 65294), (65306, 65306),
      (65342, 65342), (65344, 65344), (65392, 65392), (65438, 65439), (65507, 65507), (65529, 65531),
      (66045, 66045), (66272, 66272), (66422, 66426), (67456, 67461), (67463, 67504), (67506, 67514),
      (68097, 68099), (68101, 68102), (68108, 68111), (68152, 68154), (68159, 68159), (68325, 68326),
      (68900, 68903), (69291, 69292), (69446, 69456), (69506, 69509), (69633, 69633), (69688, 69702),
      (69744, 69744), (69747, 69748), (69759, 69761), (69811, 69814), (69817, 69818), (69821, 69821),
      (69826, 69826), (69837, 69837), (69888, 69890), (69927, 69931), (69933, 69940), (70003, 70003),
      (70016, 70017), (70070, 70078), (70089, 70092), (70095, 70095), (70191, 70193), (70196, 70196),
      (70198, 70199), (70206, 70206), (70367, 70367), (70371, 70378), (70400, 70401), (70459, 70460),
      (70464, 70464), (70502, 70508), (70512, 70516), (70712, 70719), (70722, 70724), (70726, 70726),
      (70750, 70750), (70835, 70840), (70842, 70842), (70847, 70848), (70850, 70851), (71090, 71093),
      (71100, 71101), (71103, 71104), (71132, 71133), (71219, 71226), (71229, 71229), (71231, 71232),
      (71339, 71339), (71341, 71341), (71344, 71349), (71351, 71351), (71453, 71455), (71458, 71461),
      (71463, 71467), (71727, 71735), (71737, 71738), (71995, 71996), (71998, 71998), (72003, 72003),
      (72148, 72151), (72154, 72155), (72160, 72160), (72193, 72202), (72243, 72248), (72251, 72254),
      (72263, 72263), (72273, 72278), (72281, 72283), (72330, 72342), (72344, 72345), (72752, 72758),
      (72760, 72765), (72767, 72767), (72850, 72871), (72874, 72880), (72882, 72883), (72885, 72886),
      (73009, 73014), (73018, 73018), (73020, 73021), (73023, 73029), (73031, 73031), (73104, 73105),
      (73109, 73109), (73111, 73111), (73459, 73460), (78896, 78904), (92912, 92916), (92976, 92982),
      (92992, 92995), (94031, 94031), (94095, 94111), (94176, 94177), (94179, 94180), (110576, 110579),
      (110581, 110587), (110589, 110590), (113821, 113822), (113824, 113827), (118528, 118573), (118576, 118598),
      (119143, 119145), (119155, 119170), (119173, 119179), (119210, 119213), (119362, 119364), (121344, 121398),
      (121403, 121452), (121461, 121461), (121476, 121476), (121499, 121503), (121505, 121519), (122880, 122886),
      (122888, 122904), (122907, 122913), (122915, 122916), (122918, 122922), (123184, 123197), (123566, 123566),
      (123628, 123631), (125136, 125142), (125252, 125259), (127995, 127999), (917505, 917505), (917536, 917631),
      (917760, 917999)]"

fun inRanges :: "(nat \<times> nat) list \<Rightarrow> nat \<Rightarrow> bool" where
  "inRanges [] c = False"
| "inRanges ((lo, hi) # rs) c = ((lo \<le> c \<and> c \<le> hi) \<or> inRanges rs c)"

fun mapped :: "(nat \<times> nat \<times> nat \<times> nat) list \<Rightarrow> nat \<Rightarrow> nat" where
  "mapped [] c = c"
| "mapped ((lo, hi, step, img) # rs) c =
     (if lo \<le> c \<and> c \<le> hi \<and> (c - lo) mod step = 0 then img + (c - lo)
      else mapped rs c)"

definition isCased :: "nat \<Rightarrow> bool" where
  "isCased c = inRanges casedTable c"

definition isCaseIgnorable :: "nat \<Rightarrow> bool" where
  "isCaseIgnorable c = inRanges caseIgnorableTable c"

definition lowerPoint :: "nat \<Rightarrow> nat" where
  \<comment> \<open>The lower-case mapping of one code point: A to Z and the capital letters of
      U+00C0 to U+00DE below 256 (U+00D7 is the times sign), the table from 256 on.\<close>
  "lowerPoint c =
     (if c < 256
      then (if (65 \<le> c \<and> c \<le> 90) \<or> (192 \<le> c \<and> c \<le> 222 \<and> c \<noteq> 215) then c + 32 else c)
      else mapped lowerCaseTable c)"

definition isHighSurrogate :: "nat \<Rightarrow> bool" where
  "isHighSurrogate c = (55296 \<le> c \<and> c \<le> 56319)"

definition isLowSurrogate :: "nat \<Rightarrow> bool" where
  "isLowSurrogate c = (56320 \<le> c \<and> c \<le> 57343)"

fun codePoints :: "js_string \<Rightarrow> nat list" where
  "codePoints [] = []"
| "codePoints [c] = [c]"
| "codePoints (h # l # s) =
     (if isHighSurrogate h \<and> isLowSurrogate l
      then (65536 + (h - 55296) * 1024 + (l - 56320)) # codePoints s
      else h # codePoints (l # s))"

fun codeUnits :: "nat list \<Rightarrow> js_string" where
  "codeUnits [] = []"
| "codeUnits (c # cs) =
     (if c < 65536 then [c]
      else [55296 + (c - 65536) div 1024, 56320 + (c - 65536) mod 1024]) @ codeUnits cs"

fun casedNext :: "nat list \<Rightarrow> bool" where
  \<comment> \<open>A cased letter comes next, case-ignorable code points skipped.\<close>
  "casedNext [] = False"
| "casedNext (c # cs) = (if isCaseIgnorable c then casedNext cs else isCased c)"

fun lowerPoints :: "nat list \<Rightarrow> nat list \<Rightarrow> nat list" where
  \<comment> \<open>\<open>passed\<close> holds the code points already passed, the nearest first.\<close>
  "lowerPoints passed [] = []"
| "lowerPoints passed (c # rest) =
     (if c = 931 then [if casedNext passed \<and> \<not> casedNext rest then 962 else 963]
      else if c = 304 then [105, 775]
      else [lowerPoint c]) @ lowerPoints (c # passed) rest"

definition toLowerCase :: "js_string \<Rightarrow> js_string" where
  "toLowerCase s = codeUnits (lowerPoints [] (codePoints s))"

fun startsWith :: "js_string \<Rightarrow> js_string \<Rightarrow> bool" where
  "startsWith s [] = True"
| "startsWith [] (q # qs) = False"
| "startsWith (c # s) (q # qs) = (c = q \<and> startsWith s qs)"

fun str_includes :: "js_string \<Rightarrow> js_string \<Rightarrow> bool" where
  \<comment> \<open>\<open>s.includes(q)\<close>: \<open>q\<close> occurs in \<open>s\<close> at some index.\<close>
  "str_includes [] q = (q = [])"
| "str_includes (c # s) q = (startsWith (c # s) q \<or> str_includes s q)"

fun replaceAll :: "nat \<Rightarrow> js_string \<Rightarrow> js_string \<Rightarrow> js_string" where
  \<comment> \<open>\<open>s.replace(/X/g, r)\<close> for a pattern X of one code unit.\<close>
  "replaceAll x r [] = []"
| "replaceAll x r (c # s) = (if c = x then r @ replaceAll x r s else c # replaceAll x r s)"

fun join :: "js_string \<Rightarrow> js_string list \<Rightarrow> js_string" where
  \<comment> \<open>\<open>Array.prototype.join\<close> on an array of strings.\<close>
  "join sep [] = []"
| "join sep [x] = x"
| "join sep (x # y # ys) = x @ sep @ join sep (y # ys)"

text \<open>
  An optional property is a value or absent (\<open>null\<close> or \<open>undefined\<close>). The source tests
  presence by truthiness: an absent value and the empty string are both falsy. The value
  of an optional chain that ends in a boolean is a boolean or \<open>undefined\<close>.
\<close>

fun truthy :: "bool option \<Rightarrow> bool" where
  "truthy None = False"
| "truthy (Some b) = b"

fun truthyStr :: "js_string option \<Rightarrow> bool" where
  "truthyStr None = False"
| "truthyStr (Some s) = (s \<noteq> [])"

definition js_or :: "bool option \<Rightarrow> bool option \<Rightarrow> bool option" where
  \<comment> \<open>\<open>a || b\<close>\<close>
  "js_or a b = (if truthy a then a else b)"

definition js_and :: "bool option \<Rightarrow> bool option \<Rightarrow> bool option" where
  \<comment> \<open>\<open>a && b\<close>\<close>
  "js_and a b = (if truthy a then b else a)"

fun orElse :: "js_string option \<Rightarrow> js_string \<Rightarrow> js_string" where
  \<comment> \<open>\<open>v || d\<close> for an optional string \<open>v\<close> and a default \<open>d\<close>.\<close>
  "orElse None d = d"
| "orElse (Some s) d = (if s = [] then d else s)"

section \<open>Events\<close>

text \<open>The properties of \<open>calendar_v3.Schema$Event\<close> that the component reads.\<close>

record event_time =
  dateTime :: "js_string option"
  date :: "js_string option"

record event =
  summary :: "js_string option"
  description :: "js_string option"
  location :: "js_string option"
  eventType :: "js_string option"
  start :: "event_time option"
  end' :: "event_time option"

section \<open>The calendar component: state and filter\<close>

record calendar =
  events :: "event list"
  filteredEvents :: "event list"
  loading :: bool
  error :: "js_string option"
  startDate :: js_string
  endDate :: js_string
  searchQuery :: js_string
  selectedType :: js_string

definition eventTypes :: "(js_string \<times> js_string) list" where
  \<comment> \<open>The options of the type selector: value and label.\<close>
  "eventTypes =
     [(str ''all'', str ''All Events''), (str ''default'', str ''Default''), (str ''fromGmail'', str ''From Gmail''),
      (str ''birthday'', str ''Birthday''), (str ''workingLocation'', str ''Working Location'')]"

definition fieldIncludes :: "js_string option \<Rightarrow> js_string \<Rightarrow> bool option" where
  \<comment> \<open>\<open>field?.toLowerCase().includes(searchQuery.toLowerCase())\<close>\<close>
  "fieldIncludes field q =
     (case field of
        None \<Rightarrow> None
      | Some s \<Rightarrow> Some (str_includes (toLowerCase s) (toLowerCase q)))"

definition matchesSearch :: "js_string \<Rightarrow> event \<Rightarrow> bool option" where
  "matchesSearch q ev =
     js_or (js_or (js_or (Some (trim q = []))
                         (fieldIncludes (summary ev) q))
                  (fieldIncludes (description ev) q))
           (fieldIncludes (location ev) q)"

definition matchesType :: "js_string \<Rightarrow> event \<Rightarrow> bool" where
  "matchesType t ev =
     (t = str ''all'' \<or> eventType ev = Some t \<or> (\<not> truthyStr (eventType ev) \<and> t = str ''default''))"

definition keepsEvent :: "js_string \<Rightarrow> js_string \<Rightarrow> event \<Rightarrow> bool" where
  \<comment> \<open>The callback of \<open>events.filter\<close>: an event is kept when \<open>matchesSearch && matchesType\<close> is truthy.\<close>
  "keepsEvent q t ev = truthy (js_and (matchesSearch q ev) (Some (matchesType t ev)))"

definition filterEvents :: "calendar \<Rightarrow> calendar" where
  "filterEvents s =
     s\<lparr>filteredEvents := filter (keepsEvent (searchQuery s) (selectedType s)) (events s)\<rparr>"

section \<open>The calendar fetcher\<close>

datatype js_error =
    Error js_string
  | TypeError js_string
  | SyntaxError js_string
  | RangeError js_string

fun message :: "js_error \<Rightarrow> js_string" where
  "message (Error m) = m"
| "message (TypeError m) = m"
| "message (SyntaxError m) = m"
| "message (RangeError m) = m"

text \<open>
  A \<open>Date\<close> object holds a time value in milliseconds, or none: it is then an invalid
  date. \<open>new Date(t)\<close> of a number keeps a time value of at most 8.64e15 in absolute
  value. \<open>toISOString\<close> raises a RangeError on an invalid date.
\<close>

datatype js_date = Date int | Invalid_Date

definition new_Date_of :: "int \<Rightarrow> js_date" where
  \<comment> \<open>\<open>new Date(t)\<close> for a number \<open>t\<close>\<close>
  "new_Date_of t = (if \<bar>t\<bar> \<le> 8640000000000000 then Date t else Invalid_Date)"

record request =
  url :: js_string
  searchParams :: "(js_string \<times> js_string) list"
  requestHeaders :: "(js_string \<times> js_string) list"

text \<open>
  What the code reads of the endpoint's JSON: \<open>error?.message\<close> of an error object and
  \<open>items\<close> of a result object, each of them optional. The JSON value \<open>null\<close> is apart:
  reading a property of it raises a TypeError.
\<close>

record json_body =
  error_message :: "js_string option"
  items :: "event list option"

datatype json_value = Null | Value json_body

record response =
  ok :: bool
  json :: "js_error + json_value"

text \<open>
  The platform, as the code uses it: the token store, the clock, the date parser and
  printer, the messages of the errors that the engine raises, the network, the date
  library and the print window. \<open>new Date()\<close> and \<open>Date.now()\<close> are two readings of the
  clock. \<open>fetch\<close> and \<open>response.json()\<close> reject with an error or resolve. The formatters
  stand for \<open>format(new Date(x), 'PPp')\<close> and \<open>format(new Date(x), 'PP')\<close> of date-fns
  and are taken as total: the model covers events whose date strings are dates and date
  inputs that hold a date, as the exporters assume.
\<close>

record platform =
  accessToken :: "js_string option"
  new_Date :: int
  Date_now :: int
  parse_Date :: "js_string \<Rightarrow> js_date"
  isoString :: "int \<Rightarrow> js_string"
  invalidTimeMessage :: js_string
  nullPropertyMessage :: "js_string \<Rightarrow> js_string"
  fetch :: "request \<Rightarrow> js_error + response"
  format_PPp :: "js_string \<Rightarrow> js_string"
  format_PP :: "js_string \<Rightarrow> js_string"
  window_open :: bool

definition toISOString :: "platform \<Rightarrow> js_date \<Rightarrow> js_error + js_string" where
  "toISOString p d =
     (case d of
        Date t \<Rightarrow> Inr (isoString p t)
      | Invalid_Date \<Rightarrow> Inl (RangeError (invalidTimeMessage p)))"

definition calendarRequest :: "js_string \<Rightarrow> js_string \<Rightarrow> js_string \<Rightarrow> request" where
  "calendarRequest token timeMin timeMax =
     \<lparr>url = str ''https://www.googleapis.com/calendar/v3/calendars/primary/events'',
      searchParams =
        [(str ''timeMin'', timeMin), (str ''timeMax'', timeMax), (str ''maxResults'', str ''100''),
         (str ''singleEvents'', str ''true''), (str ''orderBy'', str ''startTime'')],
      requestHeaders =
        [(str ''Authorization'', str ''Bearer '' @ token), (str ''Accept'', str ''application/json'')]\<rparr>"

definition readResponse :: "platform \<Rightarrow> response \<Rightarrow> js_error + event list" where
  \<comment> \<open>The code after \<open>await fetch\<close>.\<close>
  "readResponse p resp =
     (if \<not> ok resp then
        (case json resp of
           Inl e \<Rightarrow> Inl e
         | Inr Null \<Rightarrow> Inl (TypeError (nullPropertyMessage p (str ''error'')))
         | Inr (Value errorData) \<Rightarrow>
             Inl (Error (orElse (error_message errorData) (str ''Failed to fetch calendar events''))))
      else
        (case json resp of
           Inl e \<Rightarrow> Inl e
         | Inr Null \<Rightarrow> Inl (TypeError (nullPropertyMessage p (str ''items'')))
         | Inr (Value data) \<Rightarrow> Inr (case items data of Some xs \<Rightarrow> xs | None \<Rightarrow> [])))"

definition getCalendarEvents ::
  "platform \<Rightarrow> js_date option \<Rightarrow> js_date option \<Rightarrow> request list \<times> (js_error + event list)" where
  \<comment> \<open>The requests issued, in order, and the outcome: \<open>Inl\<close> is the error thrown.\<close>
  "getCalendarEvents p startArg endArg =
     (case accessToken p of
        None \<Rightarrow> ([], Inl (Error (str ''No access token available'')))
      | Some token \<Rightarrow>
          if token = [] then ([], Inl (Error (str ''No access token available'')))
          else
            (case (case startArg of Some d \<Rightarrow> toISOString p d
                   | None \<Rightarrow> toISOString p (Date (new_Date p))) of
               Inl e \<Rightarrow> ([], Inl e)
             | Inr timeMin \<Rightarrow>
                 (case (case endArg of Some d \<Rightarrow> toISOString p d
                        | None \<Rightarrow> toISOString p
                            (new_Date_of (Date_now p + 30 * 24 * 60 * 60 * 1000))) of
                    Inl e \<Rightarrow> ([], Inl e)
                  | Inr timeMax \<Rightarrow>
                      (let req = calendarRequest token timeMin timeMax
                       in (case fetch p req of
                             Inl e \<Rightarrow> ([req], Inl e)
                           | Inr resp \<Rightarrow> ([req], readResponse p resp))))))"

section \<open>The calendar component: loading and reacting\<close>

text \<open>
  \<open>loadEvents\<close> suspends at the \<open>await\<close>: the part before it runs when the fetch is
  started, the part after it when the promise of \<open>getCalendarEvents\<close> settles.
\<close>

definition loadEvents_start :: "calendar \<Rightarrow> calendar" where
  "loadEvents_start s = s\<lparr>loading := True, error := None\<rparr>"

definition loadEvents_settled :: "js_error + event list \<Rightarrow> calendar \<Rightarrow> calendar" where
  \<comment> \<open>Every error of the fetcher is an \<open>Error\<close> object, so the message shown is its own.\<close>
  "loadEvents_settled outcome s =
     (case outcome of
        Inr fetched \<Rightarrow> (filterEvents (s\<lparr>events := fetched\<rparr>))\<lparr>loading := False\<rparr>
      | Inl e \<Rightarrow> s\<lparr>error := Some (message e), loading := False\<rparr>)"

definition dateArgument :: "platform \<Rightarrow> js_string \<Rightarrow> js_date option" where
  \<comment> \<open>\<open>d ? new Date(d) : undefined\<close>\<close>
  "dateArgument p d = (if d = [] then None else Some (parse_Date p d))"

definition loadEvents :: "platform \<Rightarrow> calendar \<Rightarrow> calendar" where
  \<comment> \<open>A whole run of \<open>loadEvents\<close> with nothing in between.\<close>
  "loadEvents p s =
     loadEvents_settled
       (snd (getCalendarEvents p (dateArgument p (startDate s)) (dateArgument p (endDate s))))
       (loadEvents_start s)"

definition reactiveFilter :: "calendar \<Rightarrow> calendar" where
  \<comment> \<open>\<open>$: if (searchQuery !== undefined || selectedType) filterEvents()\<close>; \<open>searchQuery\<close> is
      a string, so \<open>searchQuery !== undefined\<close> holds.\<close>
  "reactiveFilter s = (if True \<or> selectedType s \<noteq> [] then filterEvents s else s)"

definition reactiveLoad :: "calendar \<Rightarrow> calendar" where
  \<comment> \<open>\<open>$: if (startDate || endDate) loadEvents()\<close>, up to the \<open>await\<close>.\<close>
  "reactiveLoad s = (if startDate s \<noteq> [] \<or> endDate s \<noteq> [] then loadEvents_start s else s)"

definition initial :: "js_string \<Rightarrow> js_string \<Rightarrow> calendar" where
  \<comment> \<open>The declarations of the script; the two dates are today and today plus 30 days.\<close>
  "initial today later =
     \<lparr>events = [], filteredEvents = [], loading = False, error = None,
      startDate = today, endDate = later, searchQuery = [], selectedType = str ''all''\<rparr>"

definition mounted :: "js_string \<Rightarrow> js_string \<Rightarrow> calendar" where
  \<comment> \<open>The reactive blocks run once at creation, then \<open>onMount(loadEvents)\<close>.\<close>
  "mounted today later = loadEvents_start (reactiveLoad (reactiveFilter (initial today later)))"

text \<open>
  What happens to the component. An input assigns a variable; the reactive block that
  reads the variable runs again when the value assigned is another one than the variable
  held.
\<close>

datatype action =
    SearchInput js_string
  | TypeSelect js_string
  | StartDateInput js_string
  | EndDateInput js_string
  | TodayClick js_string
  | FetchSettled "js_error + event list"

fun step :: "action \<Rightarrow> calendar \<Rightarrow> calendar" where
  "step (SearchInput q) s =
     (if q = searchQuery s then s else reactiveFilter (s\<lparr>searchQuery := q\<rparr>))"
| "step (TypeSelect t) s =
     (if t = selectedType s then s else reactiveFilter (s\<lparr>selectedType := t\<rparr>))"
| "step (StartDateInput d) s =
     (if d = startDate s then s else reactiveLoad (s\<lparr>startDate := d\<rparr>))"
| "step (EndDateInput d) s =
     (if d = endDate s then s else reactiveLoad (s\<lparr>endDate := d\<rparr>))"
| "step (TodayClick d) s =
     (if d = startDate s \<and> d = endDate s then s
      else reactiveLoad (s\<lparr>startDate := d, endDate := d\<rparr>))"
| "step (FetchSettled outcome) s = loadEvents_settled outcome s"

fun run :: "action list \<Rightarrow> calendar \<Rightarrow> calendar" where
  "run [] s = s"
| "run (a # as) s = run as (step a s)"

fun lastFetched :: "action list \<Rightarrow> event list \<Rightarrow> event list" where
  \<comment> \<open>The list of the last fetch that succeeded, \<open>cur\<close> when none did.\<close>
  "lastFetched [] cur = cur"
| "lastFetched (FetchSettled (Inr fetched) # as) cur = lastFetched as fetched"
| "lastFetched (a # as) cur = lastFetched as cur"

section \<open>The exporters\<close>

definition dquote :: nat where
  \<comment> \<open>The double quote.\<close>
  "dquote = 34"

definition newline :: js_string where
  "newline = [10]"

fun ifTruthy :: "js_string option \<Rightarrow> (js_string \<Rightarrow> js_string) \<Rightarrow> js_string \<Rightarrow> js_string" where
  \<comment> \<open>\<open>v ? f(v) : d\<close> for an optional string \<open>v\<close>.\<close>
  "ifTruthy None f d = d"
| "ifTruthy (Some s) f d = (if s = [] then d else f s)"

fun opt_dateTime :: "event_time option \<Rightarrow> js_string option" where
  \<comment> \<open>\<open>t?.dateTime\<close>\<close>
  "opt_dateTime None = None"
| "opt_dateTime (Some t) = dateTime t"

fun opt_date :: "event_time option \<Rightarrow> js_string option" where
  \<comment> \<open>\<open>t?.date\<close>\<close>
  "opt_date None = None"
| "opt_date (Some t) = date t"

subsection \<open>CSV\<close>

definition headers :: "js_string list" where
  "headers = [str ''Title'', str ''Start'', str ''End'', str ''Location'', str ''Type'', str ''Description'']"

definition csvRow :: "platform \<Rightarrow> event \<Rightarrow> js_string list" where
  \<comment> \<open>The callback of \<open>filteredEvents.map\<close> in \<open>exportToCSV\<close>.\<close>
  "csvRow p ev =
     [orElse (summary ev) (str ''Untitled Event''),
      ifTruthy (opt_dateTime (start ev)) (format_PPp p)
        (ifTruthy (opt_date (start ev)) (format_PP p) (str ''N/A'')),
      ifTruthy (opt_dateTime (end' ev)) (format_PPp p)
        (ifTruthy (opt_date (end' ev)) (format_PP p) (str ''N/A'')),
      orElse (location ev) (str ''No location''),
      orElse (eventType ev) (str ''Default''),
      orElse (description ev) []]"

definition csvData :: "platform \<Rightarrow> event list \<Rightarrow> js_string list list" where
  "csvData p evs = map (csvRow p) evs"

definition quoteCell :: "js_string \<Rightarrow> js_string" where
  \<comment> \<open>The template \<open>"${cell.replace(/"/g, '""')}"\<close>.\<close>
  "quoteCell cell = [dquote] @ replaceAll dquote [dquote, dquote] cell @ [dquote]"

definition exportToCSV :: "platform \<Rightarrow> calendar \<Rightarrow> js_string" where
  \<comment> \<open>\<open>csvContent\<close>, the text that is offered as a download.\<close>
  "exportToCSV p s =
     join newline
       (join (str '','') headers #
        map (\<lambda>row. join (str '','') (map quoteCell row)) (csvData p (filteredEvents s)))"

subsection \<open>Print document\<close>

definition nl :: "nat \<Rightarrow> js_string" where
  \<comment> \<open>A line break of the template and the indentation of the next line.\<close>
  "nl n = 10 # replicate n 32"

definition pdfRow :: "platform \<Rightarrow> event \<Rightarrow> js_string" where
  \<comment> \<open>The callback of \<open>filteredEvents.map\<close> in \<open>exportToPDF\<close>.\<close>
  "pdfRow p ev =
     nl 32 @ str ''<tr>'' @
     nl 36 @ str ''<td>'' @ orElse (summary ev) (str ''Untitled Event'') @ str ''</td>'' @
     nl 36 @ str ''<td>'' @
       ifTruthy (opt_dateTime (start ev)) (format_PPp p)
         (ifTruthy (opt_date (start ev)) (format_PP p) (str ''N/A'')) @ str ''</td>'' @
     nl 36 @ str ''<td>'' @
       ifTruthy (opt_dateTime (end' ev)) (format_PPp p)
         (ifTruthy (opt_date (end' ev)) (format_PP p) (str ''N/A'')) @ str ''</td>'' @
     nl 36 @ str ''<td>'' @ orElse (location ev) (str ''No location'') @ str ''</td>'' @
     nl 36 @ str ''<td>'' @ orElse (eventType ev) (str ''Default'') @ str ''</td>'' @
     nl 32 @ str ''</tr>'' @
     nl 28"

definition pdfHead :: "platform \<Rightarrow> calendar \<Rightarrow> js_string" where
  \<comment> \<open>The template up to the rows.\<close>
  "pdfHead p s =
     nl 12 @ str ''<html>'' @
     nl 16 @ str ''<head>'' @
     nl 20 @ str ''<title>Calendar Events</title>'' @
     nl 20 @ str ''<style>'' @
     nl 24 @ str ''body { font-family: Arial, sans-serif; }'' @
     nl 24 @ str ''table { width: 100%; border-collapse: collapse; margin-top: 20px; }'' @
     nl 24 @ str ''th, td { padding: 8px; text-align: left; border-bottom: 1px solid #ddd; }'' @
     nl 24 @ str ''th { background-color: #f8f9fa; }'' @
     nl 24 @ str ''h1 { color: #333; }'' @
     nl 20 @ str ''</style>'' @
     nl 16 @ str ''</head>'' @
     nl 16 @ str ''<body>'' @
     nl 20 @ str ''<h1>Calendar Events ('' @ format_PP p (startDate s) @ str '' - '' @
             format_PP p (endDate s) @ str '')</h1>'' @
     nl 20 @ str ''<table>'' @
     nl 24 @ str ''<thead>'' @
     nl 28 @ str ''<tr>'' @
     nl 32 @ str ''<th>Title</th>'' @
     nl 32 @ str ''<th>Start</th>'' @
     nl 32 @ str ''<th>End</th>'' @
     nl 32 @ str ''<th>Location</th>'' @
     nl 32 @ str ''<th>Type</th>'' @
     nl 28 @ str ''</tr>'' @
     nl 24 @ str ''</thead>'' @
     nl 24 @ str ''<tbody>'' @
     nl 28"

definition pdfTail :: js_string where
  \<comment> \<open>The template after the rows.\<close>
  "pdfTail =
     nl 24 @ str ''</tbody>'' @
     nl 20 @ str ''</table>'' @
     nl 16 @ str ''</body>'' @
     nl 12 @ str ''</html>'' @
     nl 8"

definition exportToPDF :: "platform \<Rightarrow> calendar \<Rightarrow> js_string option" where
  \<comment> \<open>The document written to the print window; nothing when \<open>window.open\<close> gave none.\<close>
  "exportToPDF p s =
     (if \<not> window_open p then None
      else Some (pdfHead p s @ join [] (map (pdfRow p) (filteredEvents s)) @ pdfTail))"

section \<open>Notions of the specification\<close>

definition containsIgnoringCase :: "js_string \<Rightarrow> js_string \<Rightarrow> bool" where
  \<comment> \<open>\<open>field\<close> contains \<open>q\<close> as a case-insensitive substring: at some index, the stretch of
      \<open>field\<close> that is as long as \<open>q\<close> equals \<open>q\<close> up to the case of its letters, code unit
      by code unit.\<close>
  "containsIgnoringCase field q =
     list_ex (\<lambda>i. map lowerPoint (take (length q) (drop i field)) = map lowerPoint q)
       [0..<Suc (length field)]"

definition unitByUnit :: "js_string \<Rightarrow> bool" where
  \<comment> \<open>A string that \<open>toLowerCase\<close> maps code unit by code unit: it has no high surrogate,
      no capital sigma (U+03A3) and no capital I with dot above (U+0130).\<close>
  "unitByUnit s =
     list_all (\<lambda>c. c < 65536 \<and> \<not> isHighSurrogate c \<and> c \<noteq> 931 \<and> c \<noteq> 304) s"

definition tableRow :: "js_string list \<Rightarrow> js_string" where
  \<comment> \<open>A row of the print table with the given cells, in the layout of the template.\<close>
  "tableRow cells =
     nl 32 @ str ''<tr>'' @
     concat (map (\<lambda>cell. nl 36 @ str ''<td>'' @ cell @ str ''</td>'') cells) @
     nl 32 @ str ''</tr>'' @
     nl 28"

definition absentIfEmpty :: "js_string option \<Rightarrow> js_string option" where
  "absentIfEmpty v = (if v = Some [] then None else v)"

definition withoutEmptyFields :: "event \<Rightarrow> event" where
  \<comment> \<open>The event with every empty title, description, location and type taken away.\<close>
  "withoutEmptyFields ev =
     ev\<lparr>summary := absentIfEmpty (summary ev),
        description := absentIfEmpty (description ev),
        location := absentIfEmpty (location ev),
        eventType := absentIfEmpty (eventType ev)\<rparr>"

section \<open>Example data\<close>

definition meeting :: event where
  "meeting =
     \<lparr>summary = Some (str ''Team MEETING''), description = None,
      location = Some (str ''Room 4''), eventType = None,
      start = Some \<lparr>dateTime = Some (str ''2024-01-15T10:00:00Z''), date = None\<rparr>,
      end' = None\<rparr>"

definition birthdayParty :: event where
  "birthdayParty =
     \<lparr>summary = None, description = Some (str ''Cake''), location = None,
      eventType = Some (str ''birthday''),
      start = Some \<lparr>dateTime = None, date = Some (str ''2024-01-15'')\<rparr>,
      end' = Some \<lparr>dateTime = None, date = Some (str ''2024-01-16'')\<rparr>\<rparr>"

definition quotedTitle :: event where
  \<comment> \<open>The title is A, a double quote, B; there is no location and no type.\<close>
  "quotedTitle =
     \<lparr>summary = Some [65, dquote, 66], description = None, location = None,
      eventType = None, start = None, end' = None\<rparr>"

definition emptyFields :: event where
  "emptyFields =
     \<lparr>summary = Some [], description = Some [], location = Some [],
      eventType = Some [], start = None, end' = None\<rparr>"

definition sigmaTitle :: event where
  \<comment> \<open>The title is capital alpha (U+0391), capital sigma (U+03A3).\<close>
  "sigmaTitle =
     \<lparr>summary = Some [913, 931], description = None, location = None,
      eventType = None, start = None, end' = None\<rparr>"

definition examplePlatform :: platform where
  "examplePlatform =
     \<lparr>accessToken = Some (str ''ya29.token''),
      new_Date = 1705312800000,
      Date_now = 1705312800001,
      parse_Date = (\<lambda>d. if d = str ''2024-01-15'' then Date 1705276800000 else Invalid_Date),
      isoString = (\<lambda>t. if t = 1705312800000 then str ''2024-01-15T10:00:00.000Z''
                        else if t = 1705312800001 + 2592000000 then str ''2024-02-14T10:00:00.001Z''
                        else str ''2024-01-15T00:00:00.000Z''),
      invalidTimeMessage = str ''Invalid time value'',
      nullPropertyMessage = (\<lambda>name. str ''Cannot read properties of null''),
      fetch = (\<lambda>req. Inr \<lparr>ok = True,
                              json = Inr (Value \<lparr>error_message = None,
                                                 items = Some [meeting, birthdayParty]\<rparr>)\<rparr>),
      format_PPp = (\<lambda>x. str ''PPp '' @ x),
      format_PP = (\<lambda>x. str ''PP '' @ x),
      window_open = True\<rparr>"

definition exampleTrace :: "action list" where
  "exampleTrace =
     [FetchSettled (Inr [meeting]),
      SearchInput (str ''cake''),
      FetchSettled (Inr [meeting, birthdayParty, meeting]),
      FetchSettled (Inl (Error (str ''Failed to fetch calendar events''))),
      TypeSelect (str ''birthday'')]"

section \<open>Properties of the string operations\<close>

lemma str_Nil: "str [] = []"
  by (simp add: str_def)

lemma str_eq_Nil: "str s = [] \<longleftrightarrow> s = []"
  by (simp add: str_def)

lemma str_eq_iff: "str a = str b \<longleftrightarrow> a = b"
  unfolding str_def by (rule inj_map_eq_map) (simp add: inj_on_def)

lemma str_append: "str (a @ b) = str a @ str b"
  by (simp add: str_def)

lemma startsWith_iff: "startsWith s q \<longleftrightarrow> (\<exists>post. s = q @ post)"
  by (induction s q rule: startsWith.induct) auto

lemma str_includes_iff: "str_includes s q \<longleftrightarrow> (\<exists>pre post. s = pre @ q @ post)"
proof (induction s)
  case Nil
  then show ?case by simp
next
  case (Cons c s)
  show ?case
  proof
    assume "str_includes (c # s) q"
    then consider "startsWith (c # s) q" | "str_includes s q" by auto
    then show "\<exists>pre post. c # s = pre @ q @ post"
    proof cases
      case 1
      then obtain post where "c # s = q @ post" by (auto simp: startsWith_iff)
      then have "c # s = [] @ q @ post" by simp
      then show ?thesis by blast
    next
      case 2
      then obtain pre post where "s = pre @ q @ post" using Cons.IH by blast
      then have "c # s = (c # pre) @ q @ post" by simp
      then show ?thesis by blast
    qed
  next
    assume "\<exists>pre post. c # s = pre @ q @ post"
    then obtain pre post where eq: "c # s = pre @ q @ post" by blast
    show "str_includes (c # s) q"
    proof (cases pre)
      case Nil
      with eq have "startsWith (c # s) q" by (auto simp: startsWith_iff)
      then show ?thesis by simp
    next
      case (Cons a pre')
      with eq have "s = pre' @ q @ post" by simp
      then have "str_includes s q" using Cons.IH by blast
      then show ?thesis by simp
    qed
  qed
qed

lemma trim_empty_iff: "trim q = [] \<longleftrightarrow> (\<forall>c\<in>set q. isWhiteSpace c)"
proof -
  have "trim q = [] \<longleftrightarrow> (\<forall>c\<in>set (dropWhile isWhiteSpace q). isWhiteSpace c)"
    by (simp add: trim_def dropWhile_eq_Nil_conv)
  also have "\<dots> \<longleftrightarrow> dropWhile isWhiteSpace q = []"
  proof
    assume all: "\<forall>c\<in>set (dropWhile isWhiteSpace q). isWhiteSpace c"
    show "dropWhile isWhiteSpace q = []"
    proof (rule ccontr)
      assume ne: "dropWhile isWhiteSpace q \<noteq> []"
      then have "\<not> isWhiteSpace (hd (dropWhile isWhiteSpace q))" by (rule hd_dropWhile)
      moreover have "hd (dropWhile isWhiteSpace q) \<in> set (dropWhile isWhiteSpace q)"
        using ne by simp
      ultimately show False using all by blast
    qed
  qed (auto dest: set_dropWhileD)
  also have "\<dots> \<longleftrightarrow> (\<forall>c\<in>set q. isWhiteSpace c)"
    by (simp add: dropWhile_eq_Nil_conv)
  finally show ?thesis .
qed

lemma includes_map_iff:
  "str_includes (map f field) (map f q) \<longleftrightarrow>
     list_ex (\<lambda>i. map f (take (length q) (drop i field)) = map f q) [0..<Suc (length field)]"
proof
  assume "str_includes (map f field) (map f q)"
  then obtain pre post where "map f field = pre @ map f q @ post"
    by (auto simp: str_includes_iff)
  then obtain a b c where f: "field = a @ b @ c" and b: "map f b = map f q"
    by (auto simp: map_eq_append_conv append_eq_map_conv)
  from b have len: "length b = length q"
    by (rule map_eq_imp_length_eq)
  have "take (length q) (drop (length a) field) = b"
    using f len by simp
  moreover have "length a \<in> set [0..<Suc (length field)]"
    using f by simp
  ultimately show "list_ex (\<lambda>i. map f (take (length q) (drop i field)) = map f q)
      [0..<Suc (length field)]"
    unfolding list_ex_iff using b by blast
next
  assume "list_ex (\<lambda>i. map f (take (length q) (drop i field)) = map f q)
      [0..<Suc (length field)]"
  then obtain i where i: "map f (take (length q) (drop i field)) = map f q"
    unfolding list_ex_iff by blast
  have "field = take i field @ take (length q) (drop i field) @ drop (length q) (drop i field)"
    by (simp only: append_take_drop_id)
  then have "map f field =
      map f (take i field) @ map f (take (length q) (drop i field)) @
      map f (drop (length q) (drop i field))"
    by (metis map_append)
  with i show "str_includes (map f field) (map f q)"
    unfolding str_includes_iff by metis
qed

lemma codePoints_eq_Nil: "codePoints s = [] \<longleftrightarrow> s = []"
  by (induction s rule: codePoints.induct) simp_all

lemma lowerPoints_eq_Nil: "lowerPoints passed ps = [] \<longleftrightarrow> ps = []"
  by (cases ps) simp_all

lemma codeUnits_eq_Nil: "codeUnits ps = [] \<longleftrightarrow> ps = []"
  by (cases ps) simp_all

lemma toLowerCase_eq_Nil: "toLowerCase s = [] \<longleftrightarrow> s = []"
  by (simp add: toLowerCase_def codeUnits_eq_Nil lowerPoints_eq_Nil codePoints_eq_Nil)

lemma codePoints_plain: "\<forall>c\<in>set s. \<not> isHighSurrogate c \<Longrightarrow> codePoints s = s"
  by (induction s rule: codePoints.induct) simp_all

lemma lowerPoints_plain:
  "931 \<notin> set ps \<Longrightarrow> 304 \<notin> set ps \<Longrightarrow> lowerPoints passed ps = map lowerPoint ps"
  by (induction ps arbitrary: passed) auto

lemma codeUnits_plain: "\<forall>c\<in>set ps. c < 65536 \<Longrightarrow> codeUnits ps = ps"
  by (induction ps) simp_all

lemma mapped_below:
  "list_all (\<lambda>(lo, hi, step, img). lo < n \<longrightarrow> img + (hi - lo) < n) table \<Longrightarrow> c < n \<Longrightarrow>
   mapped table c < n"
proof (induction table)
  case Nil
  then show ?case by simp
next
  case (Cons r table)
  obtain lo hi step img where r: "r = (lo, hi, step, img)"
    by (cases r) auto
  show ?case
  proof (cases "lo \<le> c \<and> c \<le> hi \<and> (c - lo) mod step = 0")
    case True
    with Cons.prems r have "img + (hi - lo) < n" by simp
    with True have "img + (c - lo) < n" by arith
    with True r show ?thesis by simp
  next
    case False
    with Cons r show ?thesis by auto
  qed
qed

lemma lowerCaseTable_units:
  "list_all (\<lambda>(lo, hi, step, img). lo < 65536 \<longrightarrow> img + (hi - lo) < 65536) lowerCaseTable"
  unfolding lowerCaseTable_def by simp

lemma lowerPoint_unit: "c < 65536 \<Longrightarrow> lowerPoint c < 65536"
  using mapped_below [OF lowerCaseTable_units, of c]
  by (simp add: lowerPoint_def)

lemma toLowerCase_unitByUnit: "unitByUnit s \<Longrightarrow> toLowerCase s = map lowerPoint s"
proof -
  assume u: "unitByUnit s"
  then have 1: "codePoints s = s"
    by (intro codePoints_plain) (simp add: unitByUnit_def list_all_iff)
  from u have 2: "lowerPoints [] s = map lowerPoint s"
    by (intro lowerPoints_plain) (auto simp: unitByUnit_def list_all_iff)
  from u have "\<forall>c\<in>set (map lowerPoint s). c < 65536"
    by (auto simp: unitByUnit_def list_all_iff intro: lowerPoint_unit)
  then have 3: "codeUnits (map lowerPoint s) = map lowerPoint s"
    by (rule codeUnits_plain)
  show ?thesis
    by (simp add: toLowerCase_def 1 2 3)
qed

lemma includes_lower_iff:
  "unitByUnit field \<Longrightarrow> unitByUnit q \<Longrightarrow>
   str_includes (toLowerCase field) (toLowerCase q) \<longleftrightarrow> containsIgnoringCase field q"
  by (simp add: toLowerCase_unitByUnit includes_map_iff containsIgnoringCase_def)

section \<open>Properties of the filter\<close>

lemma truthy_js_or: "truthy (js_or a b) \<longleftrightarrow> truthy a \<or> truthy b"
  by (simp add: js_or_def)

lemma truthy_js_and: "truthy (js_and a b) \<longleftrightarrow> truthy a \<and> truthy b"
  by (simp add: js_and_def)

lemma truthy_fieldIncludes:
  "truthy (fieldIncludes field q) \<longleftrightarrow>
     (\<exists>s. field = Some s \<and> str_includes (toLowerCase s) (toLowerCase q))"
  by (cases field) (simp_all add: fieldIncludes_def)

lemma truthy_matchesSearch:
  "truthy (matchesSearch q ev) \<longleftrightarrow>
     trim q = [] \<or>
     truthy (fieldIncludes (summary ev) q) \<or>
     truthy (fieldIncludes (description ev) q) \<or>
     truthy (fieldIncludes (location ev) q)"
  by (simp add: matchesSearch_def truthy_js_or)

lemma keepsEvent_iff: "keepsEvent q t ev \<longleftrightarrow> truthy (matchesSearch q ev) \<and> matchesType t ev"
  by (simp add: keepsEvent_def truthy_js_and)

lemma filteredEvents_filterEvents:
  "filteredEvents (filterEvents s) =
     filter (keepsEvent (searchQuery s) (selectedType s)) (events s)"
  by (simp add: filterEvents_def)

lemma events_filterEvents: "events (filterEvents s) = events s"
  by (simp add: filterEvents_def)

lemmas js_eval =
  str_def toLowerCase_def isHighSurrogate_def isLowSurrogate_def lowerPoint_def trim_def
  isWhiteSpace_def

lemma keeps_examples:
  "keepsEvent (str ''meet'') (str ''default'') meeting"
  "\<not> keepsEvent (str ''meet'') (str ''default'') birthdayParty"
  "keepsEvent (str ''cake'') (str ''birthday'') birthdayParty"
  "\<not> keepsEvent (str ''cake'') (str ''birthday'') meeting"
  by (simp_all add: keepsEvent_iff truthy_matchesSearch truthy_fieldIncludes matchesType_def
      meeting_def birthdayParty_def str_eq_iff)
     (simp_all add: js_eval)

text \<open>
  C3. Under the selector \<open>all\<close> every event passes the type test. Under any other selector
  an event passes exactly when its \<open>eventType\<close> equals the selector, or when it has no
  \<open>eventType\<close> value and the selector is \<open>default\<close>; the source tests the value with
  \<open>!event.eventType\<close>, so no value is an absent or an empty one. An event with no declared
  type passes under \<open>all\<close> and \<open>default\<close> only. The filter keeps the events of the list
  that pass the text test and the type test.
\<close>

theorem type_test:
  "matchesType (str ''all'') ev \<and>
   (t \<noteq> str ''all'' \<longrightarrow>
      (matchesType t ev \<longleftrightarrow>
         eventType ev = Some t \<or>
         ((eventType ev = None \<or> eventType ev = Some []) \<and> t = str ''default''))) \<and>
   (eventType ev = None \<longrightarrow> (matchesType t ev \<longleftrightarrow> t = str ''all'' \<or> t = str ''default'')) \<and>
   (ev \<in> set (filteredEvents (filterEvents s)) \<longleftrightarrow>
      ev \<in> set (events s) \<and> truthy (matchesSearch (searchQuery s) ev) \<and>
      matchesType (selectedType s) ev)"
proof -
  have all: "matchesType (str ''all'') ev"
    by (simp add: matchesType_def)
  have other: "matchesType t ev \<longleftrightarrow>
      t = str ''all'' \<or> eventType ev = Some t \<or>
      ((eventType ev = None \<or> eventType ev = Some []) \<and> t = str ''default'')"
    by (cases "eventType ev") (auto simp: matchesType_def)
  have mem: "ev \<in> set (filteredEvents (filterEvents s)) \<longleftrightarrow>
      ev \<in> set (events s) \<and> truthy (matchesSearch (searchQuery s) ev) \<and>
      matchesType (selectedType s) ev"
    by (simp add: filteredEvents_filterEvents keepsEvent_iff)
  from all other mem show ?thesis by auto
qed

theorem type_test_witness:
  "matchesType (str ''default'') meeting \<and> \<not> matchesType (str ''birthday'') meeting \<and>
   \<not> matchesType (str ''fromGmail'') meeting \<and> \<not> matchesType (str ''workingLocation'') meeting \<and>
   matchesType (str ''birthday'') birthdayParty \<and> \<not> matchesType (str ''default'') birthdayParty"
proof -
  have m: "eventType meeting = None" and b: "eventType birthdayParty = Some (str ''birthday'')"
    by (simp_all add: meeting_def birthdayParty_def)
  show ?thesis
    using type_test [of meeting "str ''default''"] type_test [of meeting "str ''birthday''"]
      type_test [of meeting "str ''fromGmail''"] type_test [of meeting "str ''workingLocation''"]
      type_test [of birthdayParty "str ''birthday''"] type_test [of birthdayParty "str ''default''"]
    by (simp add: m b str_eq_iff str_eq_Nil)
qed

text \<open>
  C4, as the code has it. The text test passes exactly when every code unit of the query
  is white space (the empty query included), or one of title, description and location
  is there and its lower-cased form contains the lower-cased query. An event with none
  of the three fields passes for a blank query only, and a blank query passes for every
  event. Under the selector \<open>all\<close> the filter keeps exactly the events that pass the text
  test. Where the field and the query have no capital sigma, no capital I with dot above
  and no letter outside the Basic Multilingual Plane, lower-casing works code unit by
  code unit, and the test is that the field contains the query as a case-insensitive
  substring.
\<close>

theorem text_test_lowered:
  "(truthy (matchesSearch q ev) \<longleftrightarrow>
      (\<forall>c\<in>set q. isWhiteSpace c) \<or>
      (\<exists>field. (summary ev = Some field \<or> description ev = Some field \<or>
                location ev = Some field) \<and>
         str_includes (toLowerCase field) (toLowerCase q))) \<and>
   (summary ev = None \<and> description ev = None \<and> location ev = None \<longrightarrow>
      (truthy (matchesSearch q ev) \<longleftrightarrow> (\<forall>c\<in>set q. isWhiteSpace c))) \<and>
   ((\<forall>c\<in>set q. isWhiteSpace c) \<longrightarrow> truthy (matchesSearch q ev)) \<and>
   (keepsEvent q (str ''all'') ev \<longleftrightarrow> truthy (matchesSearch q ev)) \<and>
   (unitByUnit q \<and> unitByUnit content \<longrightarrow>
      (str_includes (toLowerCase content) (toLowerCase q) \<longleftrightarrow>
         containsIgnoringCase content q))"
proof -
  have main: "truthy (matchesSearch q ev) \<longleftrightarrow>
      (\<forall>c\<in>set q. isWhiteSpace c) \<or>
      (\<exists>field. (summary ev = Some field \<or> description ev = Some field \<or>
                location ev = Some field) \<and>
         str_includes (toLowerCase field) (toLowerCase q))"
    unfolding truthy_matchesSearch truthy_fieldIncludes trim_empty_iff
    by blast
  have keep: "keepsEvent q (str ''all'') ev \<longleftrightarrow> truthy (matchesSearch q ev)"
    by (simp add: keepsEvent_iff matchesType_def)
  have units: "unitByUnit q \<and> unitByUnit content \<longrightarrow>
      (str_includes (toLowerCase content) (toLowerCase q) \<longleftrightarrow>
         containsIgnoringCase content q)"
    by (simp add: includes_lower_iff)
  from main keep units show ?thesis by auto
qed

theorem text_test_lowered_witness:
  "truthy (matchesSearch (str ''meet'') meeting) \<and>
   truthy (matchesSearch (str ''ROOM'') meeting) \<and>
   truthy (matchesSearch (str ''  '') birthdayParty) \<and>
   \<not> truthy (matchesSearch (str ''meet'') birthdayParty) \<and>
   unitByUnit (str ''meet'') \<and> unitByUnit (str ''Team MEETING'') \<and>
   containsIgnoringCase (str ''Team MEETING'') (str ''meet'')"
proof -
  have m: "summary meeting = Some (str ''Team MEETING'')"
      "location meeting = Some (str ''Room 4'')"
    by (simp_all add: meeting_def)
  have b: "summary birthdayParty = None" "description birthdayParty = Some (str ''Cake'')"
     "location birthdayParty = None"
    by (simp_all add: birthdayParty_def)
  have u: "unitByUnit (str ''meet'')" "unitByUnit (str ''Team MEETING'')"
    by (simp_all add: unitByUnit_def str_def isHighSurrogate_def)
  have inside: "str_includes (toLowerCase (str ''Team MEETING'')) (toLowerCase (str ''meet''))"
      "str_includes (toLowerCase (str ''Room 4'')) (toLowerCase (str ''ROOM''))"
    by (simp_all add: js_eval)
  have outside: "\<not> str_includes (toLowerCase (str ''Cake'')) (toLowerCase (str ''meet''))"
    by (simp add: js_eval)
  have blank: "\<forall>c\<in>set (str ''  ''). isWhiteSpace c"
    by (simp add: str_def isWhiteSpace_def)
  have letters: "\<not> (\<forall>c\<in>set (str ''meet''). isWhiteSpace c)"
    by (simp add: str_def isWhiteSpace_def)
  have 1: "truthy (matchesSearch (str ''meet'') meeting)"
    using text_test_lowered [of "str ''meet''" meeting] m(1) inside(1) by blast
  have 2: "truthy (matchesSearch (str ''ROOM'') meeting)"
    using text_test_lowered [of "str ''ROOM''" meeting] m(2) inside(2) by blast
  have 3: "truthy (matchesSearch (str ''  '') birthdayParty)"
    using text_test_lowered [of "str ''  ''" birthdayParty] blank by blast
  have 4: "\<not> truthy (matchesSearch (str ''meet'') birthdayParty)"
  proof
    assume "truthy (matchesSearch (str ''meet'') birthdayParty)"
    with text_test_lowered [of "str ''meet''" birthdayParty]
    have "(\<forall>c\<in>set (str ''meet''). isWhiteSpace c) \<or>
      (\<exists>field. (summary birthdayParty = Some field \<or> description birthdayParty = Some field \<or>
                location birthdayParty = Some field) \<and>
         str_includes (toLowerCase field) (toLowerCase (str ''meet'')))"
      by blast
    with letters obtain field where "description birthdayParty = Some field"
        and "str_includes (toLowerCase field) (toLowerCase (str ''meet''))"
      using b by auto
    with b(2) outside show False by simp
  qed
  have 5: "containsIgnoringCase (str ''Team MEETING'') (str ''meet'')"
    using text_test_lowered [where q = "str ''meet''" and content = "str ''Team MEETING''"]
      u inside(1) by blast
  from 1 2 3 4 5 u show ?thesis by blast
qed

text \<open>
  The sentence of the specification, that the test is containment of the query as a
  case-insensitive substring, fails where lower-casing depends on the place of a letter:
  the title capital alpha, capital sigma contains the query capital sigma, and the event
  does not pass, since the sigma of the title becomes a final sigma and the sigma of the
  query a small sigma.
\<close>

theorem text_test_counterexample:
  "summary sigmaTitle = Some [913, 931] \<and>
   str_includes [913, 931] [931] \<and>
   containsIgnoringCase [913, 931] [931] \<and>
   \<not> isWhiteSpace 931 \<and>
   toLowerCase [913, 931] = [945, 962] \<and>
   toLowerCase [931] = [963] \<and>
   \<not> truthy (matchesSearch [931] sigmaTitle)"
proof -
  have ctx: "\<not> isCaseIgnorable 913" "isCased 913"
    by (simp_all add: isCaseIgnorable_def isCased_def caseIgnorableTable_def casedTable_def)
  have title: "toLowerCase [913, 931] = [945, 962]"
    by (simp add: toLowerCase_def ctx lowerPoint_def lowerCaseTable_def isHighSurrogate_def)
  have query: "toLowerCase [931] = [963]"
    by (simp add: toLowerCase_def)
  have "\<not> truthy (matchesSearch [931] sigmaTitle)"
    by (simp add: matchesSearch_def js_or_def fieldIncludes_def sigmaTitle_def title query
        trim_def isWhiteSpace_def)
  moreover have "containsIgnoringCase [913, 931] [931]"
    by (simp add: containsIgnoringCase_def upt_rec)
  ultimately show ?thesis
    by (simp add: sigmaTitle_def title query isWhiteSpace_def)
qed

text \<open>
  C5. Filtering is idempotent: for every event list \<open>E\<close>, query \<open>q\<close> and selector \<open>t\<close>,
  the filter run on the result of filtering \<open>E\<close>, with the same \<open>q\<close> and \<open>t\<close>, gives that
  result again.
\<close>

theorem filter_idempotent:
  "filteredEvents (filterEvents (s'\<lparr>events := filteredEvents (filterEvents
        (s\<lparr>events := E, searchQuery := q, selectedType := t\<rparr>)),
        searchQuery := q, selectedType := t\<rparr>))
   = filteredEvents (filterEvents (s\<lparr>events := E, searchQuery := q, selectedType := t\<rparr>))"
  by (simp add: filteredEvents_filterEvents)

theorem filter_idempotent_witness:
  "filteredEvents (filterEvents ((initial [] [])\<lparr>events := filteredEvents (filterEvents
        ((initial [] [])\<lparr>events := [meeting, birthdayParty], searchQuery := str ''meet'',
           selectedType := str ''default''\<rparr>)),
        searchQuery := str ''meet'', selectedType := str ''default''\<rparr>))
   = [meeting]"
proof -
  have "filteredEvents (filterEvents
        ((initial [] [])\<lparr>events := [meeting, birthdayParty], searchQuery := str ''meet'',
           selectedType := str ''default''\<rparr>)) = [meeting]"
    by (simp add: filteredEvents_filterEvents initial_def keeps_examples)
  with filter_idempotent [where s = "initial [] []" and s' = "initial [] []"
      and E = "[meeting, birthdayParty]" and q = "str ''meet''" and t = "str ''default''"]
  show ?thesis by simp
qed

text \<open>
  C6. With the empty query and the selector \<open>all\<close> the filter returns the event list
  itself: every event, in the same order.
\<close>

theorem filter_identity:
  "filteredEvents (filterEvents (s\<lparr>events := E, searchQuery := [], selectedType := str ''all''\<rparr>)) = E"
  by (simp add: filteredEvents_filterEvents keepsEvent_iff truthy_matchesSearch trim_def
      matchesType_def)

theorem filter_identity_witness:
  "filteredEvents (filterEvents ((initial [] [])\<lparr>events := [birthdayParty, meeting, birthdayParty],
       searchQuery := [], selectedType := str ''all''\<rparr>)) = [birthdayParty, meeting, birthdayParty]"
  by (rule filter_identity [where s = "initial [] []"
        and E = "[birthdayParty, meeting, birthdayParty]"])

section \<open>Properties of the fetcher\<close>

lemma getCalendarEvents_requests:
  assumes "accessToken p = Some token" and "token \<noteq> []"
    and "(case startArg of Some d \<Rightarrow> toISOString p d
          | None \<Rightarrow> toISOString p (Date (new_Date p))) = Inr timeMin"
    and "(case endArg of Some d \<Rightarrow> toISOString p d
          | None \<Rightarrow> toISOString p (new_Date_of (Date_now p + 30 * 24 * 60 * 60 * 1000)))
         = Inr timeMax"
  shows "fst (getCalendarEvents p startArg endArg) = [calendarRequest token timeMin timeMax]"
  using assms unfolding getCalendarEvents_def Let_def
  by (simp split: sum.split)

lemma getCalendarEvents_invalid_start:
  "accessToken p = Some token \<Longrightarrow> token \<noteq> [] \<Longrightarrow>
   getCalendarEvents p (Some Invalid_Date) endArg = ([], Inl (RangeError (invalidTimeMessage p)))"
  by (simp add: getCalendarEvents_def toISOString_def)

lemma empty_token_no_request:
  "accessToken p = Some [] \<Longrightarrow>
     getCalendarEvents p startArg endArg = ([], Inl (Error (str ''No access token available'')))"
  by (simp add: getCalendarEvents_def)

text \<open>
  C7. For every choice of start and end dates, \<open>getCalendarEvents\<close> called while the
  token store holds no token throws an error with the message \<open>No access token available\<close>,
  and has issued no request.
\<close>

theorem no_token_no_request:
  "accessToken p = None \<Longrightarrow>
     getCalendarEvents p startArg endArg = ([], Inl (Error (str ''No access token available''))) \<and>
     fst (getCalendarEvents p startArg endArg) = [] \<and>
     (\<exists>e. snd (getCalendarEvents p startArg endArg) = Inl e \<and>
          message e = str ''No access token available'')"
  by (simp add: getCalendarEvents_def)

theorem no_token_no_request_witness:
  "accessToken (examplePlatform\<lparr>accessToken := None\<rparr>) = None \<and>
   getCalendarEvents (examplePlatform\<lparr>accessToken := None\<rparr>) (Some (Date 1705276800000)) None =
     ([], Inl (Error (str ''No access token available''))) \<and>
   getCalendarEvents (examplePlatform\<lparr>accessToken := None\<rparr>) (Some Invalid_Date) None =
     ([], Inl (Error (str ''No access token available'')))"
  using no_token_no_request [of "examplePlatform\<lparr>accessToken := None\<rparr>"
      "Some (Date 1705276800000)" None]
    no_token_no_request [of "examplePlatform\<lparr>accessToken := None\<rparr>" "Some Invalid_Date" None]
  by simp

text \<open>
  C8, as the code has it. With a token in the store (a non-empty string: the source tests
  \<open>!token\<close>), and with each of the two dates either not given or a valid date,
  \<open>getCalendarEvents\<close> issues exactly one request. Its parameters are \<open>timeMin\<close>, the
  given start instant or else the current time; \<open>timeMax\<close>, the given end instant or
  else the current time plus 30 days; \<open>maxResults=100\<close>, \<open>singleEvents=true\<close> and
  \<open>orderBy=startTime\<close>. Where the end date is not given, the current time plus 30 days
  has to be a time value that a date can hold, as it is for every clock of today.
\<close>

theorem one_request_valid_dates:
  "accessToken p = Some token \<Longrightarrow> token \<noteq> [] \<Longrightarrow>
   startArg \<noteq> Some Invalid_Date \<Longrightarrow> endArg \<noteq> Some Invalid_Date \<Longrightarrow>
   (endArg = None \<longrightarrow> \<bar>Date_now p + 30 * (24 * 60 * 60 * 1000)\<bar> \<le> 8640000000000000) \<Longrightarrow>
     fst (getCalendarEvents p startArg endArg) =
       [\<lparr>url = str ''https://www.googleapis.com/calendar/v3/calendars/primary/events'',
         searchParams =
           [(str ''timeMin'',
               isoString p (case startArg of Some (Date d) \<Rightarrow> d | _ \<Rightarrow> new_Date p)),
            (str ''timeMax'',
               isoString p (case endArg of Some (Date d) \<Rightarrow> d
                            | _ \<Rightarrow> Date_now p + 30 * (24 * 60 * 60 * 1000))),
            (str ''maxResults'', str ''100''), (str ''singleEvents'', str ''true''),
            (str ''orderBy'', str ''startTime'')],
         requestHeaders =
           [(str ''Authorization'', str ''Bearer '' @ token),
            (str ''Accept'', str ''application/json'')]\<rparr>]"
proof -
  assume tok: "accessToken p = Some token" "token \<noteq> []"
    and valid: "startArg \<noteq> Some Invalid_Date" "endArg \<noteq> Some Invalid_Date"
    and clock: "endArg = None \<longrightarrow> \<bar>Date_now p + 30 * (24 * 60 * 60 * 1000)\<bar> \<le> 8640000000000000"
  have tmin: "(case startArg of Some d \<Rightarrow> toISOString p d
               | None \<Rightarrow> toISOString p (Date (new_Date p)))
      = Inr (isoString p (case startArg of Some (Date d) \<Rightarrow> d | _ \<Rightarrow> new_Date p))"
    using valid(1) by (auto simp: toISOString_def split: option.split js_date.split)
  have tmax: "(case endArg of Some d \<Rightarrow> toISOString p d
               | None \<Rightarrow> toISOString p (new_Date_of (Date_now p + 30 * 24 * 60 * 60 * 1000)))
      = Inr (isoString p (case endArg of Some (Date d) \<Rightarrow> d
                          | _ \<Rightarrow> Date_now p + 30 * (24 * 60 * 60 * 1000)))"
    using valid(2) clock
    by (auto simp: toISOString_def new_Date_of_def split: option.split js_date.split)
  show ?thesis
    unfolding getCalendarEvents_requests [OF tok tmin tmax] calendarRequest_def ..
qed

theorem one_request_valid_dates_witness:
  "accessToken examplePlatform = Some (str ''ya29.token'') \<and> str ''ya29.token'' \<noteq> [] \<and>
   \<bar>Date_now examplePlatform + 30 * (24 * 60 * 60 * 1000)\<bar> \<le> 8640000000000000 \<and>
   fst (getCalendarEvents examplePlatform None None) =
       [\<lparr>url = str ''https://www.googleapis.com/calendar/v3/calendars/primary/events'',
         searchParams =
           [(str ''timeMin'', str ''2024-01-15T10:00:00.000Z''),
            (str ''timeMax'', str ''2024-02-14T10:00:00.001Z''),
            (str ''maxResults'', str ''100''), (str ''singleEvents'', str ''true''),
            (str ''orderBy'', str ''startTime'')],
         requestHeaders =
           [(str ''Authorization'', str ''Bearer '' @ str ''ya29.token''),
            (str ''Accept'', str ''application/json'')]\<rparr>] \<and>
   fst (getCalendarEvents examplePlatform (Some (Date 1705276800000))
          (Some (Date 1705276800000))) =
       [\<lparr>url = str ''https://www.googleapis.com/calendar/v3/calendars/primary/events'',
         searchParams =
           [(str ''timeMin'', str ''2024-01-15T00:00:00.000Z''),
            (str ''timeMax'', str ''2024-01-15T00:00:00.000Z''),
            (str ''maxResults'', str ''100''), (str ''singleEvents'', str ''true''),
            (str ''orderBy'', str ''startTime'')],
         requestHeaders =
           [(str ''Authorization'', str ''Bearer '' @ str ''ya29.token''),
            (str ''Accept'', str ''application/json'')]\<rparr>]"
proof -
  have tok: "accessToken examplePlatform = Some (str ''ya29.token'')"
    by (simp add: examplePlatform_def)
  have ne: "str ''ya29.token'' \<noteq> []"
    by (simp add: str_eq_Nil)
  have clock: "\<bar>Date_now examplePlatform + 30 * (24 * 60 * 60 * 1000)\<bar> \<le> 8640000000000000"
    by (simp add: examplePlatform_def)
  have iso: "isoString examplePlatform (new_Date examplePlatform) = str ''2024-01-15T10:00:00.000Z''"
    "isoString examplePlatform (Date_now examplePlatform + 30 * (24 * 60 * 60 * 1000))
       = str ''2024-02-14T10:00:00.001Z''"
    "isoString examplePlatform 1705276800000 = str ''2024-01-15T00:00:00.000Z''"
    by (simp_all add: examplePlatform_def)
  from one_request_valid_dates [OF tok ne, of None None] clock iso
  have 1: "fst (getCalendarEvents examplePlatform None None) =
       [\<lparr>url = str ''https://www.googleapis.com/calendar/v3/calendars/primary/events'',
         searchParams =
           [(str ''timeMin'', str ''2024-01-15T10:00:00.000Z''),
            (str ''timeMax'', str ''2024-02-14T10:00:00.001Z''),
            (str ''maxResults'', str ''100''), (str ''singleEvents'', str ''true''),
            (str ''orderBy'', str ''startTime'')],
         requestHeaders =
           [(str ''Authorization'', str ''Bearer '' @ str ''ya29.token''),
            (str ''Accept'', str ''application/json'')]\<rparr>]"
    by (simp only: option.case simp_thms option.distinct)
  from one_request_valid_dates [OF tok ne, of "Some (Date 1705276800000)"
      "Some (Date 1705276800000)"] iso
  have 2: "fst (getCalendarEvents examplePlatform (Some (Date 1705276800000))
          (Some (Date 1705276800000))) =
       [\<lparr>url = str ''https://www.googleapis.com/calendar/v3/calendars/primary/events'',
         searchParams =
           [(str ''timeMin'', str ''2024-01-15T00:00:00.000Z''),
            (str ''timeMax'', str ''2024-01-15T00:00:00.000Z''),
            (str ''maxResults'', str ''100''), (str ''singleEvents'', str ''true''),
            (str ''orderBy'', str ''startTime'')],
         requestHeaders =
           [(str ''Authorization'', str ''Bearer '' @ str ''ya29.token''),
            (str ''Accept'', str ''application/json'')]\<rparr>]"
    by (simp only: option.case js_date.case option.inject js_date.distinct simp_thms
        option.distinct)
  from tok ne clock 1 2 show ?thesis by blast
qed

text \<open>
  The sentence of the specification, that every call with a token issues one request,
  fails on an invalid date, and on a clock so late that the default end date is none:
  \<open>toISOString\<close> raises before \<open>fetch\<close> is called, with the token present.
\<close>

theorem one_request_counterexample:
  "accessToken examplePlatform = Some (str ''ya29.token'') \<and> str ''ya29.token'' \<noteq> [] \<and>
   getCalendarEvents examplePlatform (Some Invalid_Date) None =
     ([], Inl (RangeError (str ''Invalid time value''))) \<and>
   getCalendarEvents examplePlatform None (Some Invalid_Date) =
     ([], Inl (RangeError (str ''Invalid time value''))) \<and>
   accessToken (examplePlatform\<lparr>Date_now := 8640000000000000\<rparr>) = Some (str ''ya29.token'') \<and>
   getCalendarEvents (examplePlatform\<lparr>Date_now := 8640000000000000\<rparr>) None None =
     ([], Inl (RangeError (str ''Invalid time value'')))"
  by (simp add: getCalendarEvents_def toISOString_def new_Date_of_def examplePlatform_def
      str_eq_Nil)

section \<open>Properties of the exporters\<close>

lemma replaceAll_concat:
  "replaceAll x r s = concat (map (\<lambda>c. if c = x then r else [c]) s)"
  by (induction s) simp_all

lemma join_empty: "join [] xs = concat xs"
  by (induction "[] :: js_string" xs rule: join.induct) simp_all

lemma headers_line: "join (str '','') headers = str ''Title,Start,End,Location,Type,Description''"
  by (simp add: headers_def str_def)

text \<open>
  C2. The CSV text is the header \<open>Title,Start,End,Location,Type,Description\<close>, then one
  row for each event of the filtered list, in order, rows joined by newlines. A row is
  its six fields joined by commas, each field between double quotes with every double
  quote in it doubled. A missing title is \<open>Untitled Event\<close>, a missing location
  \<open>No location\<close>, a missing type \<open>Default\<close>, a missing start or end \<open>N/A\<close>. For the
  title A, double quote, B with no location and no type, the title field is the quoted
  title with its quote doubled, the location field the quoted \<open>No location\<close> and the type
  field the quoted \<open>Default\<close>.
\<close>

theorem csv_export:
  "exportToCSV p s =
     join newline (str ''Title,Start,End,Location,Type,Description'' #
                   map (\<lambda>ev. join (str '','') (map quoteCell (csvRow p ev))) (filteredEvents s)) \<and>
   join (str '','') (map quoteCell (csvRow p ev)) =
     quoteCell (csvRow p ev ! 0) @ str '','' @ quoteCell (csvRow p ev ! 1) @ str '','' @
     quoteCell (csvRow p ev ! 2) @ str '','' @ quoteCell (csvRow p ev ! 3) @ str '','' @
     quoteCell (csvRow p ev ! 4) @ str '','' @ quoteCell (csvRow p ev ! 5) \<and>
   length (csvRow p ev) = 6 \<and>
   quoteCell cell =
     [dquote] @ concat (map (\<lambda>c. if c = dquote then [dquote, dquote] else [c]) cell) @ [dquote] \<and>
   (summary ev = None \<longrightarrow> csvRow p ev ! 0 = str ''Untitled Event'') \<and>
   (start ev = None \<or> start ev = Some \<lparr>dateTime = None, date = None\<rparr> \<longrightarrow>
      csvRow p ev ! 1 = str ''N/A'') \<and>
   (end' ev = None \<or> end' ev = Some \<lparr>dateTime = None, date = None\<rparr> \<longrightarrow>
      csvRow p ev ! 2 = str ''N/A'') \<and>
   (location ev = None \<longrightarrow> csvRow p ev ! 3 = str ''No location'') \<and>
   (eventType ev = None \<longrightarrow> csvRow p ev ! 4 = str ''Default'') \<and>
   (summary ev = Some [65, dquote, 66] \<and> location ev = None \<and> eventType ev = None \<longrightarrow>
      quoteCell (csvRow p ev ! 0) = [dquote, 65, dquote, dquote, 66, dquote] \<and>
      quoteCell (csvRow p ev ! 3) = [dquote] @ str ''No location'' @ [dquote] \<and>
      quoteCell (csvRow p ev ! 4) = [dquote] @ str ''Default'' @ [dquote])"
proof -
  have whole: "exportToCSV p s =
     join newline (str ''Title,Start,End,Location,Type,Description'' #
                   map (\<lambda>ev. join (str '','') (map quoteCell (csvRow p ev))) (filteredEvents s))"
    unfolding exportToCSV_def csvData_def headers_line by (simp add: comp_def)
  have line: "join (str '','') (map quoteCell (csvRow p ev)) =
     quoteCell (csvRow p ev ! 0) @ str '','' @ quoteCell (csvRow p ev ! 1) @ str '','' @
     quoteCell (csvRow p ev ! 2) @ str '','' @ quoteCell (csvRow p ev ! 3) @ str '','' @
     quoteCell (csvRow p ev ! 4) @ str '','' @ quoteCell (csvRow p ev ! 5)"
    by (simp add: csvRow_def)
  have len: "length (csvRow p ev) = 6"
    by (simp add: csvRow_def)
  have quote: "quoteCell cell =
     [dquote] @ concat (map (\<lambda>c. if c = dquote then [dquote, dquote] else [c]) cell) @ [dquote]"
    by (simp add: quoteCell_def replaceAll_concat)
  have title: "summary ev = None \<longrightarrow> csvRow p ev ! 0 = str ''Untitled Event''"
    by (simp add: csvRow_def)
  have st: "start ev = None \<or> start ev = Some \<lparr>dateTime = None, date = None\<rparr> \<longrightarrow>
      csvRow p ev ! 1 = str ''N/A''"
    by (auto simp: csvRow_def)
  have en: "end' ev = None \<or> end' ev = Some \<lparr>dateTime = None, date = None\<rparr> \<longrightarrow>
      csvRow p ev ! 2 = str ''N/A''"
    by (auto simp: csvRow_def)
  have loc: "location ev = None \<longrightarrow> csvRow p ev ! 3 = str ''No location''"
    by (simp add: csvRow_def)
  have ty: "eventType ev = None \<longrightarrow> csvRow p ev ! 4 = str ''Default''"
    by (simp add: csvRow_def)
  have ex: "summary ev = Some [65, dquote, 66] \<and> location ev = None \<and>
      eventType ev = None \<longrightarrow>
      quoteCell (csvRow p ev ! 0) = [dquote, 65, dquote, dquote, 66, dquote] \<and>
      quoteCell (csvRow p ev ! 3) = [dquote] @ str ''No location'' @ [dquote] \<and>
      quoteCell (csvRow p ev ! 4) = [dquote] @ str ''Default'' @ [dquote]"
    by (simp add: csvRow_def quoteCell_def dquote_def str_def)
  from whole line len quote title st en loc ty ex show ?thesis by blast
qed

theorem csv_export_witness:
  "summary quotedTitle = Some [65, dquote, 66] \<and> location quotedTitle = None \<and>
   eventType quotedTitle = None \<and>
   quoteCell (csvRow examplePlatform quotedTitle ! 0) =
     [dquote, 65, dquote, dquote, 66, dquote] \<and>
   quoteCell (csvRow examplePlatform quotedTitle ! 3) = [dquote] @ str ''No location'' @ [dquote] \<and>
   quoteCell (csvRow examplePlatform quotedTitle ! 4) = [dquote] @ str ''Default'' @ [dquote] \<and>
   exportToCSV examplePlatform ((initial [] [])\<lparr>filteredEvents := [quotedTitle, birthdayParty]\<rparr>) =
     str ''Title,Start,End,Location,Type,Description'' @ newline @
     [dquote] @ str ''A'' @ [dquote, dquote] @ str ''B'' @ [dquote] @ str '','' @
     [dquote] @ str ''N/A'' @ [dquote] @ str '','' @ [dquote] @ str ''N/A'' @ [dquote] @ str '','' @
     [dquote] @ str ''No location'' @ [dquote] @ str '','' @ [dquote] @ str ''Default'' @ [dquote] @ str '','' @
     [dquote, dquote] @ newline @
     [dquote] @ str ''Untitled Event'' @ [dquote] @ str '','' @
     [dquote] @ str ''PP 2024-01-15'' @ [dquote] @ str '','' @ [dquote] @ str ''PP 2024-01-16'' @ [dquote] @ str '','' @
     [dquote] @ str ''No location'' @ [dquote] @ str '','' @ [dquote] @ str ''birthday'' @ [dquote] @ str '','' @
     [dquote] @ str ''Cake'' @ [dquote]"
proof -
  have q: "summary quotedTitle = Some [65, dquote, 66]" "location quotedTitle = None"
      "eventType quotedTitle = None"
    by (simp_all add: quotedTitle_def)
  have rows: "join newline (str ''Title,Start,End,Location,Type,Description'' #
       map (\<lambda>ev. join (str '','') (map quoteCell (csvRow examplePlatform ev)))
         (filteredEvents ((initial [] [])\<lparr>filteredEvents := [quotedTitle, birthdayParty]\<rparr>))) =
     str ''Title,Start,End,Location,Type,Description'' @ newline @
     [dquote] @ str ''A'' @ [dquote, dquote] @ str ''B'' @ [dquote] @ str '','' @
     [dquote] @ str ''N/A'' @ [dquote] @ str '','' @ [dquote] @ str ''N/A'' @ [dquote] @ str '','' @
     [dquote] @ str ''No location'' @ [dquote] @ str '','' @ [dquote] @ str ''Default'' @ [dquote] @ str '','' @
     [dquote, dquote] @ newline @
     [dquote] @ str ''Untitled Event'' @ [dquote] @ str '','' @
     [dquote] @ str ''PP 2024-01-15'' @ [dquote] @ str '','' @ [dquote] @ str ''PP 2024-01-16'' @ [dquote] @ str '','' @
     [dquote] @ str ''No location'' @ [dquote] @ str '','' @ [dquote] @ str ''birthday'' @ [dquote] @ str '','' @
     [dquote] @ str ''Cake'' @ [dquote]"
    by (simp add: csvRow_def quoteCell_def examplePlatform_def quotedTitle_def
        birthdayParty_def initial_def dquote_def newline_def str_def)
  note inst = csv_export [of examplePlatform
      "(initial [] [])\<lparr>filteredEvents := [quotedTitle, birthdayParty]\<rparr>" quotedTitle]
  from inst have "exportToCSV examplePlatform
       ((initial [] [])\<lparr>filteredEvents := [quotedTitle, birthdayParty]\<rparr>) =
     join newline (str ''Title,Start,End,Location,Type,Description'' #
       map (\<lambda>ev. join (str '','') (map quoteCell (csvRow examplePlatform ev)))
         (filteredEvents ((initial [] [])\<lparr>filteredEvents := [quotedTitle, birthdayParty]\<rparr>)))"
    by (rule conjunct1)
  then have whole: "exportToCSV examplePlatform
       ((initial [] [])\<lparr>filteredEvents := [quotedTitle, birthdayParty]\<rparr>) =
     str ''Title,Start,End,Location,Type,Description'' @ newline @
     [dquote] @ str ''A'' @ [dquote, dquote] @ str ''B'' @ [dquote] @ str '','' @
     [dquote] @ str ''N/A'' @ [dquote] @ str '','' @ [dquote] @ str ''N/A'' @ [dquote] @ str '','' @
     [dquote] @ str ''No location'' @ [dquote] @ str '','' @ [dquote] @ str ''Default'' @ [dquote] @ str '','' @
     [dquote, dquote] @ newline @
     [dquote] @ str ''Untitled Event'' @ [dquote] @ str '','' @
     [dquote] @ str ''PP 2024-01-15'' @ [dquote] @ str '','' @ [dquote] @ str ''PP 2024-01-16'' @ [dquote] @ str '','' @
     [dquote] @ str ''No location'' @ [dquote] @ str '','' @ [dquote] @ str ''birthday'' @ [dquote] @ str '','' @
     [dquote] @ str ''Cake'' @ [dquote]"
    using rows by (rule trans)
  from inst q have cells:
    "quoteCell (csvRow examplePlatform quotedTitle ! 0) =
       [dquote, 65, dquote, dquote, 66, dquote] \<and>
     quoteCell (csvRow examplePlatform quotedTitle ! 3) = [dquote] @ str ''No location'' @ [dquote] \<and>
     quoteCell (csvRow examplePlatform quotedTitle ! 4) = [dquote] @ str ''Default'' @ [dquote]"
    by blast
  from q cells whole show ?thesis by blast
qed


lemma pdfRow_cells: "pdfRow p ev = tableRow (take 5 (csvRow p ev))"
  by (simp add: pdfRow_def tableRow_def csvRow_def)

text \<open>
  C9. Every row of the print table has five cells, and they are the first five fields of
  the CSV row of the same event, before quoting: the same fallbacks and the same
  formatting of date-times and dates. The sixth CSV field, the description, has no cell,
  and the five column titles are the first five CSV headers.
\<close>

theorem print_rows:
  "pdfRow p ev = tableRow (take 5 (csvRow p ev)) \<and>
   length (take 5 (csvRow p ev)) = 5 \<and>
   csvRow p ev = take 5 (csvRow p ev) @ [orElse (description ev) []] \<and>
   take 5 headers = [str ''Title'', str ''Start'', str ''End'', str ''Location'', str ''Type''] \<and>
   exportToPDF p s =
     (if window_open p
      then Some (pdfHead p s @
                 concat (map (\<lambda>row. tableRow (take 5 row)) (csvData p (filteredEvents s))) @
                 pdfTail)
      else None)"
proof -
  have row: "pdfRow p ev = tableRow (take 5 (csvRow p ev))"
    by (rule pdfRow_cells)
  have len: "length (take 5 (csvRow p ev)) = 5"
    by (simp add: csvRow_def)
  have rest: "csvRow p ev = take 5 (csvRow p ev) @ [orElse (description ev) []]"
    by (simp add: csvRow_def)
  have hd: "take 5 headers = [str ''Title'', str ''Start'', str ''End'', str ''Location'', str ''Type'']"
    by (simp add: headers_def)
  have rows: "map (pdfRow p) evs = map (\<lambda>row. tableRow (take 5 row)) (csvData p evs)" for evs
    by (induction evs) (simp_all add: csvData_def pdfRow_def tableRow_def csvRow_def)
  have doc: "exportToPDF p s =
     (if window_open p
      then Some (pdfHead p s @
                 concat (map (\<lambda>row. tableRow (take 5 row)) (csvData p (filteredEvents s))) @
                 pdfTail)
      else None)"
    by (simp add: exportToPDF_def join_empty rows)
  from row len rest hd doc show ?thesis by blast
qed

theorem print_rows_witness:
  "take 5 (csvRow examplePlatform meeting) =
     [str ''Team MEETING'', str ''PPp 2024-01-15T10:00:00Z'', str ''N/A'', str ''Room 4'', str ''Default''] \<and>
   pdfRow examplePlatform meeting =
     nl 32 @ str ''<tr>'' @
     nl 36 @ str ''<td>Team MEETING</td>'' @
     nl 36 @ str ''<td>PPp 2024-01-15T10:00:00Z</td>'' @
     nl 36 @ str ''<td>N/A</td>'' @
     nl 36 @ str ''<td>Room 4</td>'' @
     nl 36 @ str ''<td>Default</td>'' @
     nl 32 @ str ''</tr>'' @ nl 28"
proof -
  have cells: "take 5 (csvRow examplePlatform meeting) =
     [str ''Team MEETING'', str ''PPp 2024-01-15T10:00:00Z'', str ''N/A'', str ''Room 4'', str ''Default'']"
    by (simp add: csvRow_def meeting_def examplePlatform_def str_def)
  have "pdfRow examplePlatform meeting = tableRow (take 5 (csvRow examplePlatform meeting))"
    using print_rows [of examplePlatform meeting] by blast
  with cells show ?thesis by (simp add: tableRow_def str_def)
qed


lemma truthy_empty_field: "truthy (fieldIncludes (Some []) q) \<Longrightarrow> trim q = []"
proof -
  assume "truthy (fieldIncludes (Some []) q)"
  moreover have "toLowerCase [] = []"
    by (simp add: toLowerCase_eq_Nil)
  ultimately have "toLowerCase q = []"
    by (simp add: fieldIncludes_def)
  then have "q = []"
    by (simp add: toLowerCase_eq_Nil)
  then show ?thesis
    by (simp add: trim_def)
qed

lemma fieldIncludes_absentIfEmpty:
  "trim q = [] \<or> truthy (fieldIncludes (absentIfEmpty v) q) \<longleftrightarrow>
   trim q = [] \<or> truthy (fieldIncludes v q)"
proof (cases "v = Some []")
  case True
  then show ?thesis
    using truthy_empty_field [of q] by (auto simp: absentIfEmpty_def fieldIncludes_def)
next
  case False
  then show ?thesis by (simp add: absentIfEmpty_def)
qed

lemma matchesSearch_withoutEmptyFields:
  "truthy (matchesSearch q (withoutEmptyFields ev)) \<longleftrightarrow> truthy (matchesSearch q ev)"
  using fieldIncludes_absentIfEmpty [of q "summary ev"]
    fieldIncludes_absentIfEmpty [of q "description ev"]
    fieldIncludes_absentIfEmpty [of q "location ev"]
  unfolding truthy_matchesSearch by (auto simp add: withoutEmptyFields_def)

lemma matchesType_withoutEmptyFields:
  "t \<noteq> [] \<Longrightarrow> matchesType t (withoutEmptyFields ev) \<longleftrightarrow> matchesType t ev"
  by (cases "eventType ev") (auto simp: matchesType_def withoutEmptyFields_def absentIfEmpty_def)

lemma orElse_absentIfEmpty: "orElse (absentIfEmpty v) d = orElse v d"
  by (cases v) (simp_all add: absentIfEmpty_def)

text \<open>
  C10. An empty title, description, location or type counts as an absent one. For every
  selector of the component (none of them is the empty string) the filter keeps an
  event exactly when it keeps the event without its empty fields, and both exporters
  give the two events the same cells. An event whose type is the empty string passes the
  type test under \<open>all\<close> and \<open>default\<close> only. An empty title is exported as
  \<open>Untitled Event\<close>, an empty location as \<open>No location\<close>, an empty type as \<open>Default\<close>,
  and a missing or empty description as two double quotes in the CSV.
\<close>

theorem empty_as_absent:
  "(t \<noteq> [] \<longrightarrow> keepsEvent q t (withoutEmptyFields ev) = keepsEvent q t ev) \<and>
   (\<forall>t\<in>set (map fst eventTypes). t \<noteq> []) \<and>
   csvRow p (withoutEmptyFields ev) = csvRow p ev \<and>
   pdfRow p (withoutEmptyFields ev) = pdfRow p ev \<and>
   pdfRow p ev = tableRow (take 5 (csvRow p ev)) \<and>
   (eventType ev = Some [] \<and> t \<noteq> [] \<longrightarrow> (matchesType t ev \<longleftrightarrow> t = str ''all'' \<or> t = str ''default'')) \<and>
   (summary ev = Some [] \<longrightarrow> csvRow p ev ! 0 = str ''Untitled Event'') \<and>
   (location ev = Some [] \<longrightarrow> csvRow p ev ! 3 = str ''No location'') \<and>
   (eventType ev = Some [] \<longrightarrow> csvRow p ev ! 4 = str ''Default'') \<and>
   (description ev = None \<or> description ev = Some [] \<longrightarrow>
      quoteCell (csvRow p ev ! 5) = [dquote, dquote])"
proof -
  have keep: "t \<noteq> [] \<longrightarrow> keepsEvent q t (withoutEmptyFields ev) = keepsEvent q t ev"
    by (simp add: keepsEvent_iff matchesSearch_withoutEmptyFields matchesType_withoutEmptyFields)
  have sel: "\<forall>t\<in>set (map fst eventTypes). t \<noteq> []"
    by (simp add: eventTypes_def str_eq_Nil)
  have csv: "csvRow p (withoutEmptyFields ev) = csvRow p ev"
    by (simp add: csvRow_def withoutEmptyFields_def orElse_absentIfEmpty)
  have pdf: "pdfRow p (withoutEmptyFields ev) = pdfRow p ev"
    by (simp add: pdfRow_def withoutEmptyFields_def orElse_absentIfEmpty)
  have ty: "eventType ev = Some [] \<and> t \<noteq> [] \<longrightarrow>
      (matchesType t ev \<longleftrightarrow> t = str ''all'' \<or> t = str ''default'')"
    by (auto simp: matchesType_def)
  have cells: "summary ev = Some [] \<longrightarrow> csvRow p ev ! 0 = str ''Untitled Event''"
      "location ev = Some [] \<longrightarrow> csvRow p ev ! 3 = str ''No location''"
      "eventType ev = Some [] \<longrightarrow> csvRow p ev ! 4 = str ''Default''"
    by (simp_all add: csvRow_def)
  have desc: "description ev = None \<or> description ev = Some [] \<longrightarrow>
      quoteCell (csvRow p ev ! 5) = [dquote, dquote]"
    by (auto simp: csvRow_def quoteCell_def)
  have row: "pdfRow p ev = tableRow (take 5 (csvRow p ev))"
    by (rule pdfRow_cells)
  from keep sel csv pdf row ty cells desc show ?thesis by blast
qed

theorem empty_as_absent_witness:
  "str ''default'' \<noteq> [] \<and>
   keepsEvent (str ''x'') (str ''default'') (withoutEmptyFields emptyFields) =
     keepsEvent (str ''x'') (str ''default'') emptyFields \<and>
   matchesType (str ''default'') emptyFields \<and> \<not> matchesType (str ''birthday'') emptyFields \<and>
   csvRow examplePlatform emptyFields =
     [str ''Untitled Event'', str ''N/A'', str ''N/A'', str ''No location'', str ''Default'', []] \<and>
   quoteCell (csvRow examplePlatform emptyFields ! 5) = [dquote, dquote]"
proof -
  have e: "eventType emptyFields = Some []" "summary emptyFields = Some []"
      "location emptyFields = Some []" "description emptyFields = Some []"
    by (simp_all add: emptyFields_def)
  have t: "str ''default'' \<noteq> []" "str ''birthday'' \<noteq> []"
    by (simp_all add: str_eq_Nil)
  note d = empty_as_absent [where t = "str ''default''" and q = "str ''x''" and ev = emptyFields
      and p = examplePlatform]
  note b = empty_as_absent [where t = "str ''birthday''" and q = "str ''x''" and ev = emptyFields
      and p = examplePlatform]
  from d t(1) have keep: "keepsEvent (str ''x'') (str ''default'') (withoutEmptyFields emptyFields) =
      keepsEvent (str ''x'') (str ''default'') emptyFields"
    by blast
  from d e(1) t(1) have yes: "matchesType (str ''default'') emptyFields"
    by blast
  from b e(1) t(2) have no: "\<not> matchesType (str ''birthday'') emptyFields"
    by (auto simp: str_eq_iff)
  have row: "csvRow examplePlatform emptyFields =
      [str ''Untitled Event'', str ''N/A'', str ''N/A'', str ''No location'', str ''Default'', []]"
    by (simp add: csvRow_def emptyFields_def)
  from d e(4) have desc: "quoteCell (csvRow examplePlatform emptyFields ! 5) = [dquote, dquote]"
    by blast
  from t(1) keep yes no row desc show ?thesis by blast
qed

section \<open>Properties of the component\<close>

lemma step_filtered:
  assumes "filteredEvents s = filter (keepsEvent (searchQuery s) (selectedType s)) (events s)"
  shows "filteredEvents (step a s) =
     filter (keepsEvent (searchQuery (step a s)) (selectedType (step a s))) (events (step a s))"
proof (cases a)
  case (FetchSettled outcome)
  then show ?thesis
    using assms by (cases outcome) (simp_all add: loadEvents_settled_def filterEvents_def)
qed (use assms in \<open>simp_all add: reactiveFilter_def reactiveLoad_def filterEvents_def
      loadEvents_start_def\<close>)

lemma step_events: "events (step a s) = lastFetched [a] (events s)"
proof (cases a)
  case (FetchSettled outcome)
  then show ?thesis
    by (cases outcome) (simp_all add: loadEvents_settled_def filterEvents_def)
qed (simp_all add: reactiveFilter_def reactiveLoad_def filterEvents_def loadEvents_start_def)

lemma lastFetched_Cons: "lastFetched (a # as) cur = lastFetched as (lastFetched [a] cur)"
proof (cases a)
  case (FetchSettled outcome)
  then show ?thesis by (cases outcome) simp_all
qed simp_all

lemma run_events: "events (run tr s) = lastFetched tr (events s)"
proof (induction tr arbitrary: s)
  case Nil
  show ?case by simp
next
  case (Cons a tr)
  have "events (run (a # tr) s) = lastFetched tr (events (step a s))"
    by (simp add: Cons.IH)
  also have "\<dots> = lastFetched (a # tr) (events s)"
    by (simp add: step_events lastFetched_Cons [of a tr])
  finally show ?case .
qed

lemma run_filtered:
  "filteredEvents s = filter (keepsEvent (searchQuery s) (selectedType s)) (events s) \<Longrightarrow>
   filteredEvents (run tr s) =
     filter (keepsEvent (searchQuery (run tr s)) (selectedType (run tr s))) (events (run tr s))"
proof (induction tr arbitrary: s)
  case Nil
  then show ?case by simp
next
  case (Cons a tr)
  from Cons.prems have "filteredEvents (step a s) =
     filter (keepsEvent (searchQuery (step a s)) (selectedType (step a s))) (events (step a s))"
    by (rule step_filtered)
  then show ?case by (simp add: Cons.IH)
qed

lemma mounted_events: "events (mounted today later) = []"
  by (simp add: mounted_def initial_def reactiveFilter_def reactiveLoad_def filterEvents_def
      loadEvents_start_def)

lemma mounted_filtered: "filteredEvents (mounted today later) = []"
  by (simp add: mounted_def initial_def reactiveFilter_def reactiveLoad_def filterEvents_def
      loadEvents_start_def)

text \<open>
  C1. In every state the component reaches from its creation by search inputs, type
  selections, date inputs and settled fetches, \<open>events\<close> is the list the last successful
  fetch delivered (empty before the first), and \<open>filteredEvents\<close> is that list
  filtered, in order, by the current \<open>searchQuery\<close> and \<open>selectedType\<close>. A failed fetch
  leaves \<open>events\<close> and \<open>filteredEvents\<close> as they are; a successful fetch replaces
  \<open>events\<close> by what it delivered, so nothing of an earlier fetch stays.
\<close>

theorem visible_events:
  "events (run tr (mounted today later)) = lastFetched tr [] \<and>
   filteredEvents (run tr (mounted today later)) =
     filter (keepsEvent (searchQuery (run tr (mounted today later)))
                        (selectedType (run tr (mounted today later))))
       (lastFetched tr []) \<and>
   events (step (FetchSettled (Inl e)) s) = events s \<and>
   filteredEvents (step (FetchSettled (Inl e)) s) = filteredEvents s \<and>
   events (step (FetchSettled (Inr fetched)) s) = fetched \<and>
   events (loadEvents p s) =
     (case snd (getCalendarEvents p (dateArgument p (startDate s)) (dateArgument p (endDate s)))
      of Inl e \<Rightarrow> events s | Inr fetched \<Rightarrow> fetched)"
proof -
  let ?s = "run tr (mounted today later)"
  have ev: "events ?s = lastFetched tr []"
    by (simp add: run_events mounted_events)
  have "filteredEvents (mounted today later) =
      filter (keepsEvent (searchQuery (mounted today later)) (selectedType (mounted today later)))
        (events (mounted today later))"
    by (simp add: mounted_events mounted_filtered)
  then have "filteredEvents ?s = filter (keepsEvent (searchQuery ?s) (selectedType ?s)) (events ?s)"
    by (rule run_filtered)
  with ev have fi: "filteredEvents ?s =
      filter (keepsEvent (searchQuery ?s) (selectedType ?s)) (lastFetched tr [])"
    by simp
  have failed: "events (step (FetchSettled (Inl e)) s) = events s"
      "filteredEvents (step (FetchSettled (Inl e)) s) = filteredEvents s"
    by (simp_all add: loadEvents_settled_def)
  have ok: "events (step (FetchSettled (Inr fetched)) s) = fetched"
    by (simp add: loadEvents_settled_def filterEvents_def)
  have whole: "events (loadEvents p s) =
     (case snd (getCalendarEvents p (dateArgument p (startDate s)) (dateArgument p (endDate s)))
      of Inl e \<Rightarrow> events s | Inr fetched \<Rightarrow> fetched)"
    unfolding loadEvents_def
    by (cases "snd (getCalendarEvents p (dateArgument p (startDate s)) (dateArgument p (endDate s)))")
       (simp_all add: loadEvents_settled_def loadEvents_start_def filterEvents_def)
  from ev fi failed ok whole show ?thesis by blast
qed

theorem visible_events_witness:
  "events (run exampleTrace (mounted (str ''2024-01-15'') (str ''2024-02-14''))) =
     [meeting, birthdayParty, meeting] \<and>
   filteredEvents (run exampleTrace (mounted (str ''2024-01-15'') (str ''2024-02-14''))) = [birthdayParty]"
proof -
  let ?s = "run exampleTrace (mounted (str ''2024-01-15'') (str ''2024-02-14''))"
  have l: "lastFetched exampleTrace [] = [meeting, birthdayParty, meeting]"
    by (simp add: exampleTrace_def)
  have q: "searchQuery ?s = str ''cake''" "selectedType ?s = str ''birthday''"
    by (simp_all add: exampleTrace_def mounted_def initial_def reactiveFilter_def
        reactiveLoad_def filterEvents_def loadEvents_start_def loadEvents_settled_def
        str_eq_iff str_eq_Nil)
  have f: "filter (keepsEvent (str ''cake'') (str ''birthday''))
      [meeting, birthdayParty, meeting] = [birthdayParty]"
    by (simp add: keeps_examples)
  from visible_events [of exampleTrace "str ''2024-01-15''" "str ''2024-02-14''"] l q f
  show ?thesis by simp
qed

end
